theory Spec2Isabelle
  imports Complex_Main "HOL-Library.AList"
begin

section \<open>Values, exceptions and configuration\<close>

text \<open>
  The monitor is Python. Its \<open>float\<close> values are modelled by \<^typ>\<open>real\<close> (the exact
  number a float stands for; no NaN, no infinity, no binary rounding), its unbounded
  \<open>int\<close> by \<^typ>\<open>int\<close>. A value stored in a reading is one or the other, since
  \<open>bool\<close>, \<open>str\<close>, \<open>round\<close> and \<open>int\<close> treat the two differently.
\<close>

datatype num = PyInt int | PyFloat real

text \<open>A reading is a Python \<open>dict\<close>: keys in insertion order, no key twice.\<close>

type_synonym dict = "(string \<times> num) list"

datatype exn =
    ReadTimeoutError
  | ChecksumMismatchError
  | KeyError string
  | ZeroDivisionError
  | ValueError
  | OtherError string

text \<open>The editable settings at the top of \<open>EnviroPlus/main.py\<close>.\<close>

record config =
  MONITOR_NAME :: string
  ROUND_DATA_TO_DP :: int
  MEASURE_PM25 :: bool
  MEASURE_PM10 :: bool
  MEASURE_TEMPERATURE :: bool
  MEASURE_PRESSURE :: bool
  MEASURE_HUMIDITY :: bool
  MEASURE_GASES :: bool
  MEASURE_CPU_TEMPERATURE :: bool
  COMPENSATE_TEMPERATURE :: bool
  TEMP_COMPENSATION_FACTOR :: real
  SAVE_DATA_LOCALLY :: bool
  VERBOSE :: bool
  MEASUREMENT_FREQUENCY :: real

definition default_config :: config where
  "default_config =
     \<lparr> MONITOR_NAME = ''My Monitor'',
       ROUND_DATA_TO_DP = 2,
       MEASURE_PM25 = True,
       MEASURE_PM10 = True,
       MEASURE_TEMPERATURE = True,
       MEASURE_PRESSURE = True,
       MEASURE_HUMIDITY = True,
       MEASURE_GASES = True,
       MEASURE_CPU_TEMPERATURE = False,
       COMPENSATE_TEMPERATURE = True,
       TEMP_COMPENSATION_FACTOR = 225 / 100,
       SAVE_DATA_LOCALLY = True,
       VERBOSE = True,
       MEASUREMENT_FREQUENCY = 2 \<rparr>"

section \<open>Python built-ins used by the monitor\<close>

text \<open>
  \<open>round(x, ndigits)\<close> rounds to the nearest multiple of \<open>10 ** -ndigits\<close>, a tie going
  to the even neighbour. On a float it returns a float, on an int an int (the int
  itself when \<open>ndigits\<close> is not negative).
\<close>

definition round_half_even :: "real \<Rightarrow> int" where
  "round_half_even x =
     (let f = \<lfloor>x\<rfloor>; d = x - of_int f
      in if d < 1 / 2 then f
         else if 1 / 2 < d then f + 1
         else if even f then f else f + 1)"

definition round_float :: "real \<Rightarrow> int \<Rightarrow> real" where
  "round_float x ndigits =
     (if 0 \<le> ndigits
      then of_int (round_half_even (x * 10 ^ nat ndigits)) / 10 ^ nat ndigits
      else of_int (round_half_even (x / 10 ^ nat (- ndigits))) * 10 ^ nat (- ndigits))"

definition round_int :: "int \<Rightarrow> int \<Rightarrow> int" where
  "round_int i ndigits =
     (if 0 \<le> ndigits then i
      else round_half_even (of_int i / 10 ^ nat (- ndigits)) * 10 ^ nat (- ndigits))"


section \<open>Calibration and compensation\<close>

definition calibrate_temperature :: "config \<Rightarrow> real \<Rightarrow> real" where
  "calibrate_temperature cfg temperature = round_float temperature (ROUND_DATA_TO_DP cfg)"

definition calibrate_pressure :: "config \<Rightarrow> real \<Rightarrow> real" where
  "calibrate_pressure cfg pressure = round_float pressure (ROUND_DATA_TO_DP cfg)"

definition calibrate_humidity :: "config \<Rightarrow> real \<Rightarrow> real" where
  "calibrate_humidity cfg humidity = round_float humidity (ROUND_DATA_TO_DP cfg)"

definition calibrate_pm25 :: "config \<Rightarrow> int \<Rightarrow> int" where
  "calibrate_pm25 cfg pm25 = round_int pm25 (ROUND_DATA_TO_DP cfg)"

definition calibrate_pm10 :: "config \<Rightarrow> int \<Rightarrow> int" where
  "calibrate_pm10 cfg pm10 = round_int pm10 (ROUND_DATA_TO_DP cfg)"

text \<open>
  \<open>compensate_temperature(raw_temp, cpu_temp, comp_factor)\<close>; the division raises
  \<open>ZeroDivisionError\<close> when the factor is zero.
\<close>

definition compensate_temperature :: "config \<Rightarrow> real \<Rightarrow> real \<Rightarrow> real \<Rightarrow> exn + real" where
  "compensate_temperature cfg raw_temp cpu_temp comp_factor =
     (if comp_factor = 0 then Inl ZeroDivisionError
      else let comp_temp = raw_temp - ((cpu_temp - raw_temp) / comp_factor)
           in Inr (round_float comp_temp (ROUND_DATA_TO_DP cfg)))"

section \<open>Sensors\<close>

text \<open>
  The PMS5003 particulate sensor is the one collaborator whose reads the scripts retry,
  so it carries state: the outcomes of its coming \<open>read()\<close> calls, and how often it was
  read and reset. A sensor with no outcome left stays silent, which the driver reports as
  \<open>ReadTimeoutError\<close>. A successful read holds \<open>pm_ug_per_m3(2.5)\<close> and
  \<open>pm_ug_per_m3(10)\<close>.
\<close>

record pms5003 =
  pending :: "(exn + int \<times> int) list"
  reads :: nat
  resets :: nat

definition pms5003_read :: "pms5003 \<Rightarrow> (exn + int \<times> int) \<times> pms5003" where
  "pms5003_read p =
     (case pending p of
        [] \<Rightarrow> (Inl ReadTimeoutError, p\<lparr>reads := Suc (reads p)\<rparr>)
      | r # rs \<Rightarrow> (r, p\<lparr>pending := rs, reads := Suc (reads p)\<rparr>))"

definition pms5003_reset :: "pms5003 \<Rightarrow> pms5003" where
  "pms5003_reset p = p\<lparr>resets := Suc (resets p)\<rparr>"

text \<open>
  What the outside world answers during one pass of the main loop: the clock, the
  sensors, and whether the console, the database and the display accept what they are
  sent. Every call into a driver may raise.
\<close>

record world =
  clock :: real
  datetime_now :: string
  bme280_temperature :: "exn + real"
  bme280_pressure :: "exn + real"
  bme280_humidity :: "exn + real"
  thermal_zone0 :: "exn + int"
  gas_read_all :: "exn + real \<times> real \<times> real"
  print_raises :: "exn option"
  execute_raises :: "exn option"
  ltr559_proximity :: "exn + int"
  display_raises :: "exn option"

definition get_cpu_temperature :: "world \<Rightarrow> exn + real" where
  "get_cpu_temperature w =
     (case thermal_zone0 w of Inl e \<Rightarrow> Inl e | Inr n \<Rightarrow> Inr (of_int n / 1000))"

text \<open>\<open>if FLAG: output[key] = value\<close>\<close>

definition assign_if :: "bool \<Rightarrow> string \<Rightarrow> num \<Rightarrow> dict \<Rightarrow> dict" where
  "assign_if flag key v output = (if flag then AList.update key v output else output)"

text \<open>
  \<open>get_sensor_data\<close> of \<open>EnviroPlus/main.py\<close>. The particulate sensor is read once, with
  no handler around the read: an exception leaves the function at once.
\<close>

definition build_output ::
  "config \<Rightarrow> real \<Rightarrow> real \<Rightarrow> real \<Rightarrow> real \<Rightarrow> int \<Rightarrow> int \<Rightarrow> real \<times> real \<times> real \<Rightarrow> dict" where
  "build_output cfg temperature pressure humidity cpu_temperature pm25 pm10 current_gas =
     (case current_gas of (oxidising, reducing, nh3) \<Rightarrow>
        let dp = ROUND_DATA_TO_DP cfg;
            output = [];
            output = assign_if (MEASURE_TEMPERATURE cfg) ''temperature''
                       (PyFloat (calibrate_temperature cfg temperature)) output;
            output = assign_if (MEASURE_PRESSURE cfg) ''pressure''
                       (PyFloat (calibrate_pressure cfg pressure)) output;
            output = assign_if (MEASURE_HUMIDITY cfg) ''humidity''
                       (PyFloat (calibrate_humidity cfg humidity)) output;
            output = assign_if (MEASURE_PM25 cfg) ''P2'' (PyInt (calibrate_pm25 cfg pm25)) output;
            output = assign_if (MEASURE_PM10 cfg) ''P1'' (PyInt (calibrate_pm10 cfg pm10)) output;
            output = assign_if (MEASURE_CPU_TEMPERATURE cfg) ''cpu_temperature''
                       (PyFloat (round_float cpu_temperature dp)) output;
            output = assign_if (MEASURE_GASES cfg) ''oxidising''
                       (PyFloat (round_float (oxidising / 1000) dp)) output;
            output = assign_if (MEASURE_GASES cfg) ''reducing''
                       (PyFloat (round_float (reducing / 1000) dp)) output;
            output = assign_if (MEASURE_GASES cfg) ''nh3''
                       (PyFloat (round_float (nh3 / 1000) dp)) output
        in output)"

definition get_sensor_data ::
  "config \<Rightarrow> world \<Rightarrow> pms5003 \<Rightarrow> (exn + dict \<times> string) \<times> pms5003" where
  "get_sensor_data cfg w pms5003_instance =
     (let current_time = datetime_now w in
      case bme280_temperature w of Inl e \<Rightarrow> (Inl e, pms5003_instance) | Inr temperature \<Rightarrow>
     (case bme280_pressure w of Inl e \<Rightarrow> (Inl e, pms5003_instance) | Inr pressure \<Rightarrow>
     (case bme280_humidity w of Inl e \<Rightarrow> (Inl e, pms5003_instance) | Inr humidity \<Rightarrow>
     (case get_cpu_temperature w of Inl e \<Rightarrow> (Inl e, pms5003_instance) | Inr cpu_temperature \<Rightarrow>
     (case (if COMPENSATE_TEMPERATURE cfg
            then compensate_temperature cfg temperature cpu_temperature
                   (TEMP_COMPENSATION_FACTOR cfg)
            else Inr temperature) of
        Inl e \<Rightarrow> (Inl e, pms5003_instance)
      | Inr temperature \<Rightarrow>
     (case pms5003_read pms5003_instance of
        (Inl e, p) \<Rightarrow> (Inl e, p)
      | (Inr current_pm, p) \<Rightarrow>
     (case gas_read_all w of Inl e \<Rightarrow> (Inl e, p) | Inr current_gas \<Rightarrow>
        (Inr (build_output cfg temperature pressure humidity cpu_temperature
                (fst current_pm) (snd current_pm) current_gas, current_time), p))))))))"

text \<open>
  \<open>read_values\<close> of \<open>emi_test.py\<close>, the older script. Its values are strings:
  \<open>fmt2\<close> stands for \<open>"{:.2f}".format\<close> and \<open>str_int\<close> for \<open>str\<close> on an int. The
  compensation factor is the script's constant 2.25. Here the particulate read sits in a
  \<open>try\<close> whose handler catches \<open>ReadTimeoutError\<close> and \<open>ChecksumMismatchError\<close>, resets
  the sensor and reads again; the second read has no handler.
\<close>

definition pm_entries :: "(int \<Rightarrow> string) \<Rightarrow> int \<times> int \<Rightarrow> (string \<times> string) list
    \<Rightarrow> (string \<times> string) list" where
  "pm_entries str_int pm_values vals =
     AList.update ''P1'' (str_int (snd pm_values))
       (AList.update ''P2'' (str_int (fst pm_values)) vals)"

definition read_values ::
  "(real \<Rightarrow> string) \<Rightarrow> (int \<Rightarrow> string) \<Rightarrow> world \<Rightarrow> pms5003
     \<Rightarrow> (exn + (string \<times> string) list \<times> string) \<times> pms5003" where
  "read_values fmt2 str_int w pms =
     (case get_cpu_temperature w of Inl e \<Rightarrow> (Inl e, pms) | Inr cpu_temp \<Rightarrow>
     (case bme280_temperature w of Inl e \<Rightarrow> (Inl e, pms) | Inr raw_temp \<Rightarrow>
     (let comp_temp = raw_temp - ((cpu_temp - raw_temp) / (225 / 100));
          current_time = datetime_now w;
          vals = AList.update ''temperature'' (fmt2 comp_temp) []
      in
      case bme280_pressure w of Inl e \<Rightarrow> (Inl e, pms) | Inr pressure \<Rightarrow>
     (let vals = AList.update ''pressure'' (fmt2 pressure) vals in
      case bme280_humidity w of Inl e \<Rightarrow> (Inl e, pms) | Inr humidity \<Rightarrow>
     (let vals = AList.update ''humidity'' (fmt2 humidity) vals in
      case pms5003_read pms of
        (Inr pm_values, p) \<Rightarrow> (Inr (pm_entries str_int pm_values vals, current_time), p)
      | (Inl e, p) \<Rightarrow>
          (if e = ReadTimeoutError \<or> e = ChecksumMismatchError
           then (case pms5003_read (pms5003_reset p) of
                   (Inr pm_values, p') \<Rightarrow>
                     (Inr (pm_entries str_int pm_values vals, current_time), p')
                 | (Inl e', p') \<Rightarrow> (Inl e', p'))
           else (Inl e, p)))))))"

section \<open>Sinks\<close>

text \<open>
  \<open>bool(x)\<close>, \<open>str(x)\<close> and \<open>bool * str\<close> on the result of \<open>data.get(key)\<close>, which is
  \<open>None\<close> for a key the reading does not hold. How \<open>str\<close> prints a number is left to
  the parameter \<open>str_py\<close>.
\<close>

fun truthy :: "num \<Rightarrow> bool" where
  "truthy (PyInt i) = (i \<noteq> 0)"
| "truthy (PyFloat x) = (x \<noteq> 0)"

definition bool_py :: "num option \<Rightarrow> bool" where
  "bool_py v = (case v of None \<Rightarrow> False | Some x \<Rightarrow> truthy x)"

definition str_opt :: "(num \<Rightarrow> string) \<Rightarrow> num option \<Rightarrow> string" where
  "str_opt str_py v = (case v of None \<Rightarrow> ''None'' | Some x \<Rightarrow> str_py x)"

definition times_bool :: "bool \<Rightarrow> string \<Rightarrow> string" where
  "times_bool b text = (if b then text else [])"

text \<open>\<open>verbose\<close>: the line handed to \<open>print\<close>.\<close>

definition verbose :: "(num \<Rightarrow> string) \<Rightarrow> dict \<Rightarrow> string \<Rightarrow> string" where
  "verbose str_py data measurement_time =
     (let temperature = map_of data ''temperature'';
          temperature = times_bool (bool_py temperature)
                          ('' Tmp: '' @ str_opt str_py temperature @ '' deg C '');
          humidity = map_of data ''humidity'';
          humidity = times_bool (bool_py humidity)
                       ('' Hum: '' @ str_opt str_py humidity @ '' % '');
          pressure = map_of data ''pressure'';
          pressure = times_bool (bool_py pressure)
                       ('' Prs: '' @ str_opt str_py pressure @ '' hPa '');
          cpu_temperature = map_of data ''cpu_temperature'';
          cpu_temperature = times_bool (bool_py cpu_temperature)
                              ('' CPU: '' @ str_opt str_py cpu_temperature @ '' deg C '');
          pm25 = map_of data ''P2'';
          pm25 = times_bool (bool_py pm25)
                   ('' PM2.5: '' @ str_opt str_py pm25 @ '' ug/cm^3 '');
          pm10 = map_of data ''P1'';
          pm10 = times_bool (bool_py pm10)
                   ('' PM10: '' @ str_opt str_py pm10 @ '' ug/cm^3 '');
          oxidising = map_of data ''oxidising'';
          oxidising = times_bool (bool_py oxidising)
                        ('' Oxidising: '' @ str_opt str_py oxidising @ '' kOhm '');
          reducing = map_of data ''reducing'';
          reducing = times_bool (bool_py reducing)
                       ('' Reducing: '' @ str_opt str_py reducing @ '' kOhm '');
          nh3 = map_of data ''nh3'';
          nh3 = times_bool (bool_py nh3) ('' NH3: '' @ str_opt str_py nh3 @ '' kOhm '')
      in [CHR 0x0A] @ measurement_time @ '' | '' @ temperature @ pressure @ humidity
           @ cpu_temperature @ pm25 @ pm10 @ oxidising @ reducing @ nh3)"

text \<open>\<open>send_to_local_db\<close>: the \<open>INSERT\<close> command handed to \<open>cursor.execute\<close>.\<close>

definition send_to_local_db ::
  "config \<Rightarrow> (num \<Rightarrow> string) \<Rightarrow> string \<Rightarrow> dict \<Rightarrow> string \<Rightarrow> string" where
  "send_to_local_db cfg str_py table_name data measurement_time =
     (let get = (\<lambda>key. str_opt str_py (map_of data key));
          command = ''INSERT INTO '' @ table_name @ '' VALUES ('' @ [CHR 0x27]
                      @ measurement_time @ [CHR 0x27] @ '','';
          command = command @ (if MEASURE_TEMPERATURE cfg then get ''temperature'' @ '','' else []);
          command = command @ (if MEASURE_HUMIDITY cfg then get ''humidity'' @ '','' else []);
          command = command @ (if MEASURE_PRESSURE cfg then get ''pressure'' @ '','' else []);
          command = command @ (if MEASURE_CPU_TEMPERATURE cfg
                               then get ''cpu_temperature'' @ '','' else []);
          command = command @ (if MEASURE_PM25 cfg then get ''P2'' @ '','' else []);
          command = command @ (if MEASURE_PM10 cfg then get ''P1'' @ '','' else []);
          command = (if MEASURE_GASES cfg
                     then command @ get ''oxidising'' @ '','' @ get ''reducing'' @ '',''
                            @ get ''nh3'' @ '',''
                     else command)
      in butlast command @ '')'')"

subsection \<open>Luftdaten\<close>

text \<open>
  A submission is the \<open>requests.post\<close> call: its \<open>X-PIN\<close> and \<open>X-Sensor\<close> headers and the
  \<open>sensordatavalues\<close> of its body (the URL, the software version and the other headers
  are constants). The network answers with a response or raises one of the three
  exceptions the function catches.
\<close>

record 'v request =
  x_pin :: string
  x_sensor :: string
  sensordatavalues :: "(string \<times> 'v) list"

record response =
  ok :: bool
  reason :: string

datatype request_error = ConnectionError | Timeout | RequestException

datatype log_entry = Info string | Warning string | Error string | Critical exn

definition startswith :: "string \<Rightarrow> string \<Rightarrow> bool" where
  "startswith s prefix = (take (length prefix) s = prefix)"

text \<open>The \<open>try\<close> around a post and its three handlers; the response stays \<open>None\<close> on a raise.\<close>

definition try_post ::
  "('v request \<Rightarrow> request_error + response) \<Rightarrow> 'v request \<Rightarrow> response option \<times> log_entry list" where
  "try_post post req =
     (case post req of
        Inr r \<Rightarrow> (Some r, [])
      | Inl ConnectionError \<Rightarrow>
          (None, [Warning ''Failed to send PM data to Luftdaten due to a connection error.''])
      | Inl Timeout \<Rightarrow>
          (None, [Warning ''Failed to send PM data to Luftdaten because request timed-out.''])
      | Inl RequestException \<Rightarrow>
          (None, [Warning ''Failed to send PM data to Luftdaten due to a request error.'']))"

text \<open>
  \<open>send_to_luftdaten\<close> of \<open>EnviroPlus/main.py\<close>: the return value (or the \<open>KeyError\<close> of
  \<open>data["P1"]\<close>), the submissions issued in order, and the log.
\<close>

definition send_to_luftdaten ::
  "config \<Rightarrow> (num request \<Rightarrow> request_error + response) \<Rightarrow> dict \<Rightarrow> string
     \<Rightarrow> (exn + int) \<times> num request list \<times> log_entry list" where
  "send_to_luftdaten cfg post data serial_num =
     (if \<not> (MEASURE_PM25 cfg \<and> MEASURE_PM10 cfg)
      then (Inr (- 1), [],
            [Error ''Failed to send data to Luftdaten due to configuration.''])
      else
        case map_of data ''P1'' of None \<Rightarrow> (Inl (KeyError ''P1''), [], []) | Some p1 \<Rightarrow>
       (case map_of data ''P2'' of None \<Rightarrow> (Inl (KeyError ''P2''), [], []) | Some p2 \<Rightarrow>
       (let pm_data_dict = [(''P1'', p1), (''P2'', p2)];
            climate_data_dict = filter (\<lambda>i. \<not> startswith (fst i) ''P'') data;
            pm_request = \<lparr>x_pin = ''1'', x_sensor = serial_num,
                           sensordatavalues = pm_data_dict\<rparr>;
            pm = try_post post pm_request;
            pm_api_response = fst pm;
            climate_request = \<lparr>x_pin = ''11'', x_sensor = serial_num,
                                sensordatavalues = climate_data_dict\<rparr>;
            climate = (if climate_data_dict \<noteq> []
                       then (fst (try_post post climate_request), [climate_request],
                             snd (try_post post climate_request))
                       else (None, [], []));
            climate_api_response = fst climate;
            sent = pm_request # fst (snd climate);
            warnings = snd pm @ snd (snd climate)
        in
          case pm_api_response of
            None \<Rightarrow> (Inr (- 1), sent, warnings)
          | Some pm_r \<Rightarrow>
             (case climate_api_response of
                Some climate_r \<Rightarrow>
                  if ok pm_r \<and> ok climate_r then (Inr 0, sent, warnings)
                  else (Inr (- 1), sent,
                        warnings @ [Warning ''Received bad response from Luftdaten.''])
              | None \<Rightarrow>
                  if ok pm_r then (Inr 0, sent, warnings)
                  else (Inr (- 1), sent,
                        warnings @ [Warning ''Received bad response from Luftdaten.''])))))"

text \<open>
  \<open>send_to_luftdaten\<close> of \<open>emi_test.py\<close>: both groups are posted whatever they hold, and
  the result is \<open>True\<close> only with two good responses.
\<close>

definition emi_send_to_luftdaten ::
  "(string request \<Rightarrow> request_error + response) \<Rightarrow> (string \<times> string) list \<Rightarrow> string
     \<Rightarrow> bool \<times> string request list" where
  "emi_send_to_luftdaten post vals ident =
     (let pm_values = filter (\<lambda>i. startswith (fst i) ''P'') vals;
          temp_values = filter (\<lambda>i. \<not> startswith (fst i) ''P'') vals;
          pm_request = \<lparr>x_pin = ''1'', x_sensor = ident, sensordatavalues = pm_values\<rparr>;
          resp_pm = (case post pm_request of Inr r \<Rightarrow> Some r | Inl e \<Rightarrow> None);
          bmp_request = \<lparr>x_pin = ''11'', x_sensor = ident, sensordatavalues = temp_values\<rparr>;
          resp_bmp = (case post bmp_request of Inr r \<Rightarrow> Some r | Inl e \<Rightarrow> None)
      in (case resp_pm of
            None \<Rightarrow> False
          | Some r_pm \<Rightarrow> (case resp_bmp of None \<Rightarrow> False | Some r_bmp \<Rightarrow> ok r_pm \<and> ok r_bmp),
          [pm_request, bmp_request]))"

section \<open>Display\<close>

text \<open>
  The LCD reports its size. A frame is the list of drawing calls made before
  \<open>display.display(image)\<close>; the first call repaints the whole image.
\<close>

record st7735 =
  width :: int
  height :: int

datatype colour = White | Grey | Green | Red | Blue | Lime

datatype font = TEXT_FONT | TITLE_FONT

datatype draw_op =
    Rectangle "int \<times> int \<times> int \<times> int" colour
  | Text "int \<times> int" string colour font

text \<open>\<open>int(x)\<close> truncates towards zero; \<open>data.get(key, 0)\<close>.\<close>

definition int_trunc :: "real \<Rightarrow> int" where
  "int_trunc x = (if 0 \<le> x then \<lfloor>x\<rfloor> else \<lceil>x\<rceil>)"

fun int_py :: "num \<Rightarrow> num" where
  "int_py (PyInt i) = PyInt i"
| "int_py (PyFloat x) = PyInt (int_trunc x)"

definition get_or_0 :: "dict \<Rightarrow> string \<Rightarrow> num" where
  "get_or_0 data key = (case map_of data key of None \<Rightarrow> PyInt 0 | Some v \<Rightarrow> v)"

definition display_status_bg :: "st7735 \<Rightarrow> bool \<Rightarrow> draw_op list" where
  "display_status_bg display mainloop_errors =
     [Rectangle (0, 0, width display, height display) (if mainloop_errors then Red else Green),
      Rectangle (0, 0, width display, 10) Blue]"

definition display_main_scene ::
  "config \<Rightarrow> (num \<Rightarrow> string) \<Rightarrow> int \<Rightarrow> string \<Rightarrow> dict \<Rightarrow> draw_op list" where
  "display_main_scene cfg str_py current_scene_id current_time data =
     [Text (5, 0) (MONITOR_NAME cfg) White TEXT_FONT,
      Text (5, 15) (''Last: '' @ current_time) White TEXT_FONT]
     @ (if current_scene_id = 0 then
          [Text (5, 30) ''PM2.5'' White TEXT_FONT,
           Text (5, 45) (str_py (get_or_0 data ''P2'')) White TITLE_FONT,
           Text (60, 30) ''PM10'' White TEXT_FONT,
           Text (60, 45) (str_py (get_or_0 data ''P1'')) White TITLE_FONT,
           Text (115, 30) ''Temp'' White TEXT_FONT,
           Text (115, 45) (str_py (int_py (get_or_0 data ''temperature''))) White TITLE_FONT]
        else if current_scene_id = 1 then
          [Text (5, 30) ''Humidity'' White TEXT_FONT,
           Text (5, 45) (str_py (int_py (get_or_0 data ''humidity''))) White TITLE_FONT,
           Text (60, 30) ''Pressure'' White TEXT_FONT,
           Text (60, 45) (str_py (int_py (get_or_0 data ''pressure''))) White TITLE_FONT]
        else if current_scene_id = 2 then
          [Text (5, 30) ''Oxi'' White TEXT_FONT,
           Text (5, 45) (str_py (int_py (get_or_0 data ''oxidising''))) White TITLE_FONT,
           Text (60, 30) ''Red'' White TEXT_FONT,
           Text (60, 45) (str_py (int_py (get_or_0 data ''reducing''))) White TITLE_FONT,
           Text (115, 30) ''NH3'' White TEXT_FONT,
           Text (115, 45) (str_py (int_py (get_or_0 data ''nh3''))) White TITLE_FONT]
        else [])"

definition display_progress_bar :: "st7735 \<Rightarrow> real \<Rightarrow> draw_op list" where
  "display_progress_bar display percent =
     [Rectangle (0, height display - 8, int_trunc (of_int (width display) * percent),
                 height display) Lime]"

section \<open>Main loop\<close>

text \<open>
  The variables of \<open>mainloop\<close> that outlive a pass (\<open>previous_time\<close>, \<open>data\<close>,
  \<open>measurement_time\<close>), the module globals it uses (\<open>current_scene_id\<close>,
  \<open>mainloop_errors\<close>, \<open>table_name\<close>), the particulate sensor, and what the run has left
  in the world: the lines printed, the rows committed, the log and the frames shown.
  \<open>measurement_time\<close> holds \<open>str(measurement_time)\<close>.
\<close>

record loop_state =
  previous_time :: real
  data :: dict
  measurement_time :: string
  current_scene_id :: int
  mainloop_errors :: bool
  table_name :: string
  pms :: pms5003
  console :: "string list"
  db_rows :: "string list"
  logged :: "log_entry list"
  lcd :: "draw_op list list"

text \<open>
  The body of \<open>while True: try: ...\<close> comes in three parts. Each returns the exception
  that ended it, if any, and the state as the exception found it: what was assigned,
  printed or committed before the raise stays.

  First part: the cadence check, the acquisition and the two sinks.
\<close>

definition sample_phase ::
  "config \<Rightarrow> (num \<Rightarrow> string) \<Rightarrow> real \<Rightarrow> world \<Rightarrow> loop_state \<Rightarrow> exn option \<times> loop_state" where
  "sample_phase cfg str_py update_delay w s =
     (let current_time = clock w;
          time_difference = current_time - previous_time s
      in
      if update_delay \<le> time_difference then
        (let s = s\<lparr>previous_time := current_time\<rparr> in
         case get_sensor_data cfg w (pms s) of
           (Inl e, p) \<Rightarrow> (Some e, s\<lparr>pms := p\<rparr>)
         | (Inr (d, t), p) \<Rightarrow>
        (let s = s\<lparr>pms := p, data := d, measurement_time := t\<rparr> in
         case (if VERBOSE cfg
               then (case print_raises w of
                       Some e \<Rightarrow> (Some e, s)
                     | None \<Rightarrow> (None, s\<lparr>console := console s @ [verbose str_py d t]\<rparr>))
               else (None, s)) of
           (Some e, s) \<Rightarrow> (Some e, s)
         | (None, s) \<Rightarrow>
             if SAVE_DATA_LOCALLY cfg
             then (case execute_raises w of
                     Some e \<Rightarrow> (Some e, s)
                   | None \<Rightarrow>
                       (None, s\<lparr>db_rows := db_rows s
                                    @ [send_to_local_db cfg str_py (table_name s) d t],
                                 logged := logged s
                                    @ [Info ''Success: Data saved to local storage.'']\<rparr>))
             else (None, s)))
      else (None, s))"

text \<open>Second part: the proximity sensor turns the page.\<close>

definition scene_phase :: "world \<Rightarrow> loop_state \<Rightarrow> exn option \<times> loop_state" where
  "scene_phase w s =
     (case ltr559_proximity w of
        Inl e \<Rightarrow> (Some e, s)
      | Inr proximity \<Rightarrow>
          if 1500 < proximity
          then (let s = s\<lparr>current_scene_id := current_scene_id s + 1\<rparr>
                in if 2 < current_scene_id s then (None, s\<lparr>current_scene_id := 0\<rparr>)
                   else (None, s))
          else (None, s))"

text \<open>
  Third part: the frame and the sleep. \<open>time_difference / update_delay\<close> raises on a zero
  delay, and \<open>time.sleep\<close> raises \<open>ValueError\<close> on a negative length.
\<close>

definition display_phase ::
  "config \<Rightarrow> (num \<Rightarrow> string) \<Rightarrow> st7735 \<Rightarrow> real \<Rightarrow> real \<Rightarrow> world \<Rightarrow> loop_state
     \<Rightarrow> exn option \<times> loop_state" where
  "display_phase cfg str_py display update_delay time_difference w s =
     (if update_delay = 0 then (Some ZeroDivisionError, s)
      else
        let image = display_status_bg display (mainloop_errors s)
              @ display_main_scene cfg str_py (current_scene_id s)
                  (take (length (measurement_time s) - 7) (measurement_time s)) (data s)
              @ display_progress_bar display (time_difference / update_delay)
        in case display_raises w of
             Some e \<Rightarrow> (Some e, s)
           | None \<Rightarrow>
               (let s = s\<lparr>lcd := lcd s @ [image]\<rparr>
                in if update_delay * (5 / 100) < 0 then (Some ValueError, s) else (None, s)))"

text \<open>One pass of the loop, with its \<open>except Exception\<close>.\<close>

definition tick ::
  "config \<Rightarrow> (num \<Rightarrow> string) \<Rightarrow> st7735 \<Rightarrow> real \<Rightarrow> world \<Rightarrow> loop_state \<Rightarrow> loop_state" where
  "tick cfg str_py display update_delay w s =
     (let time_difference = clock w - previous_time s;
          body = (case sample_phase cfg str_py update_delay w s of
                    (Some e, s1) \<Rightarrow> (Some e, s1)
                  | (None, s1) \<Rightarrow>
                     (case scene_phase w s1 of
                        (Some e, s2) \<Rightarrow> (Some e, s2)
                      | (None, s2) \<Rightarrow>
                          display_phase cfg str_py display update_delay time_difference w s2))
      in case body of
           (None, s') \<Rightarrow> s'
         | (Some e, s') \<Rightarrow> s'\<lparr>mainloop_errors := True, logged := logged s' @ [Critical e]\<rparr>)"

text \<open>
  The loop has no exit of its own. \<open>run\<close> makes the passes for which the world has
  answers, one \<^typ>\<open>world\<close> each; \<open>trace\<close> lists the state each pass started from.
\<close>

fun run ::
  "config \<Rightarrow> (num \<Rightarrow> string) \<Rightarrow> st7735 \<Rightarrow> real \<Rightarrow> world list \<Rightarrow> loop_state \<Rightarrow> loop_state" where
  "run cfg str_py display update_delay [] s = s"
| "run cfg str_py display update_delay (w # ws) s =
     run cfg str_py display update_delay ws (tick cfg str_py display update_delay w s)"

fun trace ::
  "config \<Rightarrow> (num \<Rightarrow> string) \<Rightarrow> st7735 \<Rightarrow> real \<Rightarrow> world list \<Rightarrow> loop_state \<Rightarrow> loop_state list" where
  "trace cfg str_py display update_delay [] s = []"
| "trace cfg str_py display update_delay (w # ws) s =
     s # trace cfg str_py display update_delay ws (tick cfg str_py display update_delay w s)"

text \<open>
  What \<open>mainloop\<close> does before the loop: the first clock reading, the interval
  \<open>60.0 / MEASUREMENT_FREQUENCY\<close> (which raises on a zero frequency), an empty reading
  and the time \<open>"-"\<close>. The scene index and the error flag have their module values.
  \<open>init_local_db\<close>, which creates the table and fixes \<open>table_name\<close>, is not
  modelled: the name it chose is the parameter \<open>tbl\<close>.
\<close>

definition update_delay_of :: "config \<Rightarrow> exn + real" where
  "update_delay_of cfg =
     (if MEASUREMENT_FREQUENCY cfg = 0 then Inl ZeroDivisionError
      else Inr (60 / MEASUREMENT_FREQUENCY cfg))"

definition initial_state :: "real \<Rightarrow> string \<Rightarrow> pms5003 \<Rightarrow> loop_state" where
  "initial_state start_time tbl sensor =
     \<lparr> previous_time = start_time, data = [], measurement_time = ''-'',
       current_scene_id = 0, mainloop_errors = False, table_name = tbl, pms = sensor,
       console = [], db_rows = [], logged = [], lcd = [] \<rparr>"

definition mainloop ::
  "config \<Rightarrow> (num \<Rightarrow> string) \<Rightarrow> st7735 \<Rightarrow> real \<Rightarrow> string \<Rightarrow> pms5003 \<Rightarrow> world list
     \<Rightarrow> exn + loop_state" where
  "mainloop cfg str_py display start_time tbl sensor ws =
     (case update_delay_of cfg of
        Inl e \<Rightarrow> Inl e
      | Inr update_delay \<Rightarrow>
          Inr (run cfg str_py display update_delay ws (initial_state start_time tbl sensor)))"

section \<open>Sample inputs\<close>

text \<open>
  Concrete inputs on which the theorems below are exercised: a world in which every
  driver answers, a particulate sensor that answers at once and one whose first read
  times out, the 160 by 80 display, a network that accepts everything and one on which
  the climate post times out, and a stand-in for \<open>str\<close>.
\<close>

definition sample_world :: world where
  "sample_world =
     \<lparr> clock = 30, datetime_now = ''2023-03-08 12:00:00.000000'',
       bme280_temperature = Inr 22, bme280_pressure = Inr 1013.25,
       bme280_humidity = Inr 40.126, thermal_zone0 = Inr 45000,
       gas_read_all = Inr (12345.6, 400000, 70000),
       print_raises = None, execute_raises = None,
       ltr559_proximity = Inr 0, display_raises = None \<rparr>"

definition sample_sensor :: pms5003 where
  "sample_sensor = \<lparr>pending = [Inr (3, 5)], reads = 0, resets = 0\<rparr>"

definition flaky_sensor :: pms5003 where
  "flaky_sensor = \<lparr>pending = [Inl ReadTimeoutError, Inr (3, 5)], reads = 0, resets = 0\<rparr>"

definition sample_display :: st7735 where
  "sample_display = \<lparr>width = 160, height = 80\<rparr>"

fun sample_str :: "num \<Rightarrow> string" where
  "sample_str (PyInt i) = ''i''"
| "sample_str (PyFloat x) = ''f''"

definition accepting_post :: "'v request \<Rightarrow> request_error + response" where
  "accepting_post req = Inr \<lparr>ok = True, reason = ''OK''\<rparr>"

definition climate_timeout_post :: "'v request \<Rightarrow> request_error + response" where
  "climate_timeout_post req =
     (if x_pin req = ''1'' then Inr \<lparr>ok = True, reason = ''OK''\<rparr> else Inl Timeout)"

definition sample_reading :: dict where
  "sample_reading =
     [(''temperature'', PyFloat 11.78), (''pressure'', PyFloat 1013.25),
      (''humidity'', PyFloat 40.13), (''P2'', PyInt 3), (''P1'', PyInt 5),
      (''oxidising'', PyFloat 12.35), (''reducing'', PyFloat 400), (''nh3'', PyFloat 70)]"

section \<open>Rounding\<close>







section \<open>Temperature compensation\<close>




section \<open>The reading\<close>







lemma get_sensor_data_sample:
  "get_sensor_data default_config sample_world sample_sensor
     = (Inr (sample_reading, ''2023-03-08 12:00:00.000000''),
        \<lparr>pending = [], reads = 1, resets = 0\<rparr>)"
  by (simp add: get_sensor_data_def sample_world_def sample_sensor_def sample_reading_def
      default_config_def get_cpu_temperature_def compensate_temperature_def pms5003_read_def
      build_output_def assign_if_def Let_def calibrate_temperature_def calibrate_pressure_def
      calibrate_humidity_def calibrate_pm25_def calibrate_pm10_def round_float_def
      round_int_def round_half_even_def)



text \<open>
  C8: with a particulate sensor whose first read times out and whose second read answers,
  \<open>get_sensor_data\<close> of \<open>EnviroPlus/main.py\<close> gives up after the one read, without a
  reset, while \<open>read_values\<close> of \<open>emi_test.py\<close> resets the sensor once, reads a second
  time and returns the values.
\<close>

theorem get_sensor_data_no_retry:
  "get_sensor_data default_config sample_world flaky_sensor
     = (Inl ReadTimeoutError, \<lparr>pending = [Inr (3, 5)], reads = 1, resets = 0\<rparr>)
   \<and> fst (read_values fmt2 str_int sample_world flaky_sensor)
     = Inr ([(''temperature'', fmt2 (22 - (45 - 22) / 2.25)), (''pressure'', fmt2 1013.25),
             (''humidity'', fmt2 40.126), (''P2'', str_int 3), (''P1'', str_int 5)],
            ''2023-03-08 12:00:00.000000'')
   \<and> snd (read_values fmt2 str_int sample_world flaky_sensor)
     = \<lparr>pending = [], reads = 2, resets = 1\<rparr>"
  by (simp add: get_sensor_data_def read_values_def sample_world_def flaky_sensor_def
      default_config_def get_cpu_temperature_def compensate_temperature_def pms5003_read_def
      pms5003_reset_def pm_entries_def Let_def)

text \<open>
  The older script, in general: after a first read that fails with one of the two
  transient errors it resets once and reads once more, and a second failure leaves
  \<open>read_values\<close> as its exception.
\<close>

lemma read_values_retries_once:
  assumes "thermal_zone0 w = Inr n" "bme280_temperature w = Inr T"
    "bme280_pressure w = Inr P" "bme280_humidity w = Inr H"
    "pms5003_read p = (Inl e, p1)" "e = ReadTimeoutError \<or> e = ChecksumMismatchError"
  shows "snd (read_values fmt2 str_int w p) = snd (pms5003_read (pms5003_reset p1))
       \<and> resets (snd (read_values fmt2 str_int w p)) = Suc (resets p)
       \<and> reads (snd (read_values fmt2 str_int w p)) = Suc (Suc (reads p))
       \<and> (\<forall>e'. fst (pms5003_read (pms5003_reset p1)) = Inl e'
             \<longrightarrow> fst (read_values fmt2 str_int w p) = Inl e')"
  using assms
  by (auto simp: read_values_def get_cpu_temperature_def pms5003_read_def pms5003_reset_def
      Let_def split: list.splits prod.splits sum.splits)

section \<open>Console output\<close>

lemma field_text_delete:
  assumes "map_of d k = Some v" and "\<not> truthy v"
  shows "times_bool (bool_py (map_of (AList.delete k d) q))
           (a @ str_opt str_py (map_of (AList.delete k d) q) @ b)
         = times_bool (bool_py (map_of d q)) (a @ str_opt str_py (map_of d q) @ b)"
  using assms by (cases "q = k") (simp_all add: delete_conv' times_bool_def bool_py_def)

text \<open>
  C10: when a reading holds the value 0 or 0.0 under some key, \<open>verbose\<close> prints for it
  the very line it prints for the reading without that key.
\<close>

theorem verbose_zero_like_absent:
  assumes "map_of d k = Some v" and "v = PyInt 0 \<or> v = PyFloat 0"
  shows "verbose str_py (AList.delete k d) t = verbose str_py d t"
proof -
  have "\<not> truthy v" using assms(2) by auto
  note eq = field_text_delete [OF assms(1) this]
  show ?thesis unfolding verbose_def Let_def by (simp only: eq)
qed

theorem verbose_zero_like_absent_witness:
  "map_of [(''temperature'', PyFloat 21.5), (''P2'', PyInt 0)] ''P2'' = Some (PyInt 0)
   \<and> verbose sample_str [(''temperature'', PyFloat 21.5)] ''12:00''
       = verbose sample_str [(''temperature'', PyFloat 21.5), (''P2'', PyInt 0)] ''12:00''
   \<and> verbose sample_str [(''temperature'', PyFloat 21.5), (''P2'', PyInt 0)] ''12:00''
       = [CHR 0x0A] @ ''12:00 |  Tmp: f deg C ''"
proof -
  let ?d = "[(''temperature'', PyFloat 21.5), (''P2'', PyInt 0)]"
  have h: "map_of ?d ''P2'' = Some (PyInt 0)"
    by simp
  have "verbose sample_str (AList.delete ''P2'' ?d) ''12:00'' = verbose sample_str ?d ''12:00''"
    using verbose_zero_like_absent [OF h, of sample_str "''12:00''"] by simp
  moreover have "verbose sample_str ?d ''12:00'' = [CHR 0x0A] @ ''12:00 |  Tmp: f deg C ''"
    by (simp add: verbose_def Let_def times_bool_def bool_py_def str_opt_def)
  ultimately show ?thesis using h by (simp add: AList.delete_eq)
qed

section \<open>Remote push\<close>

text \<open>
  C5: the reading holds particulate and climate values, the particulate post is answered
  with success and the climate post times out. \<open>send_to_luftdaten\<close> issues both posts,
  logs the time-out and returns 0: a climate post that raised leaves
  \<open>climate_api_response\<close> at \<open>None\<close>, which the final check takes for "no climate data
  was provided".
\<close>

theorem send_to_luftdaten_climate_timeout:
  "send_to_luftdaten default_config climate_timeout_post sample_reading ''0000abcd''
     = (Inr 0,
        [\<lparr>x_pin = ''1'', x_sensor = ''0000abcd'',
           sensordatavalues = [(''P1'', PyInt 5), (''P2'', PyInt 3)]\<rparr>,
         \<lparr>x_pin = ''11'', x_sensor = ''0000abcd'',
           sensordatavalues =
             [(''temperature'', PyFloat 11.78), (''pressure'', PyFloat 1013.25),
              (''humidity'', PyFloat 40.13), (''oxidising'', PyFloat 12.35),
              (''reducing'', PyFloat 400), (''nh3'', PyFloat 70)]\<rparr>],
        [Warning ''Failed to send PM data to Luftdaten because request timed-out.''])"
  by (simp add: send_to_luftdaten_def default_config_def climate_timeout_post_def
      sample_reading_def try_post_def startswith_def Let_def)

text \<open>
  The result of \<open>send_to_luftdaten\<close> in full, for a reading that holds both particulate
  values: 0 exactly when the particulate post is answered with success and the climate
  post is not made, or raises, or is answered with success.
\<close>

lemma send_to_luftdaten_result:
  assumes "MEASURE_PM25 cfg" "MEASURE_PM10 cfg"
    "map_of rd ''P1'' = Some p1" "map_of rd ''P2'' = Some p2"
  shows "fst (send_to_luftdaten cfg post rd serial)
           = (case post \<lparr>x_pin = ''1'', x_sensor = serial,
                          sensordatavalues = [(''P1'', p1), (''P2'', p2)]\<rparr> of
                Inl e \<Rightarrow> Inr (- 1)
              | Inr pm_r \<Rightarrow>
                  if \<not> ok pm_r then Inr (- 1)
                  else if filter (\<lambda>i. \<not> startswith (fst i) ''P'') rd = [] then Inr 0
                  else (case post \<lparr>x_pin = ''11'', x_sensor = serial,
                                    sensordatavalues
                                      = filter (\<lambda>i. \<not> startswith (fst i) ''P'') rd\<rparr> of
                          Inl e \<Rightarrow> Inr 0
                        | Inr climate_r \<Rightarrow> if ok climate_r then Inr 0 else Inr (- 1)))"
  using assms
  by (simp add: send_to_luftdaten_def Let_def try_post_def
      split: option.splits sum.splits request_error.splits)

text \<open>
  C4, as stated, has a group without fields skipped and not counted as a failure. With
  the particulate measurements switched off the reading holds climate values only;
  \<open>send_to_luftdaten\<close> then posts nothing, not even the climate group, and returns -1.
\<close>

theorem luftdaten_config_failure_counterexample:
  "send_to_luftdaten (default_config\<lparr>MEASURE_PM25 := False, MEASURE_PM10 := False\<rparr>)
       accepting_post [(''temperature'', PyFloat 11.78)] ''0000abcd''
     = (Inr (- 1), [], [Error ''Failed to send data to Luftdaten due to configuration.''])"
  by (simp add: send_to_luftdaten_def default_config_def)

text \<open>
  C4, amended, for \<open>send_to_luftdaten\<close> of \<open>EnviroPlus/main.py\<close>. With both particulate
  measurements enabled and both particulate values in the reading, the function posts
  the particulate group \<open>P1\<close>, \<open>P2\<close> under tag "1" and then, if the reading holds any
  key that does not start with \<open>P\<close>, those values under tag "11": one submission for a
  reading with particulate values only, two for a reading with both. An empty climate
  group is skipped and does not count as a failure: the result is then 0 exactly when
  the particulate post is answered with success. A reading without \<open>P1\<close> or \<open>P2\<close> raises
  \<open>KeyError\<close> before anything is posted, and with a particulate measurement disabled
  nothing is posted and the result is -1.
\<close>

theorem luftdaten_grouping:
  "(MEASURE_PM25 cfg \<and> MEASURE_PM10 cfg
      \<and> map_of rd ''P1'' = Some p1 \<and> map_of rd ''P2'' = Some p2 \<longrightarrow>
      fst (snd (send_to_luftdaten cfg post rd serial))
        = \<lparr>x_pin = ''1'', x_sensor = serial, sensordatavalues = [(''P1'', p1), (''P2'', p2)]\<rparr>
          # (if filter (\<lambda>i. \<not> startswith (fst i) ''P'') rd = [] then []
             else [\<lparr>x_pin = ''11'', x_sensor = serial,
                     sensordatavalues = filter (\<lambda>i. \<not> startswith (fst i) ''P'') rd\<rparr>])
      \<and> (filter (\<lambda>i. \<not> startswith (fst i) ''P'') rd = [] \<longrightarrow>
            fst (send_to_luftdaten cfg post rd serial)
              = (case post \<lparr>x_pin = ''1'', x_sensor = serial,
                             sensordatavalues = [(''P1'', p1), (''P2'', p2)]\<rparr> of
                   Inr r \<Rightarrow> if ok r then Inr 0 else Inr (- 1)
                 | Inl e \<Rightarrow> Inr (- 1))))
   \<and> (MEASURE_PM25 cfg \<and> MEASURE_PM10 cfg
        \<and> (map_of rd ''P1'' = None \<or> map_of rd ''P2'' = None) \<longrightarrow>
        (fst (send_to_luftdaten cfg post rd serial) = Inl (KeyError ''P1'')
           \<or> fst (send_to_luftdaten cfg post rd serial) = Inl (KeyError ''P2''))
        \<and> fst (snd (send_to_luftdaten cfg post rd serial)) = [])
   \<and> (\<not> (MEASURE_PM25 cfg \<and> MEASURE_PM10 cfg) \<longrightarrow>
        fst (send_to_luftdaten cfg post rd serial) = Inr (- 1)
        \<and> fst (snd (send_to_luftdaten cfg post rd serial)) = [])"
proof (intro conjI impI)
  assume h: "MEASURE_PM25 cfg \<and> MEASURE_PM10 cfg
      \<and> map_of rd ''P1'' = Some p1 \<and> map_of rd ''P2'' = Some p2"
  show "fst (snd (send_to_luftdaten cfg post rd serial))
        = \<lparr>x_pin = ''1'', x_sensor = serial, sensordatavalues = [(''P1'', p1), (''P2'', p2)]\<rparr>
          # (if filter (\<lambda>i. \<not> startswith (fst i) ''P'') rd = [] then []
             else [\<lparr>x_pin = ''11'', x_sensor = serial,
                     sensordatavalues = filter (\<lambda>i. \<not> startswith (fst i) ''P'') rd\<rparr>])"
    using h by (simp add: send_to_luftdaten_def Let_def split: option.splits)
  assume e: "filter (\<lambda>i. \<not> startswith (fst i) ''P'') rd = []"
  show "fst (send_to_luftdaten cfg post rd serial)
              = (case post \<lparr>x_pin = ''1'', x_sensor = serial,
                             sensordatavalues = [(''P1'', p1), (''P2'', p2)]\<rparr> of
                   Inr r \<Rightarrow> if ok r then Inr 0 else Inr (- 1)
                 | Inl e \<Rightarrow> Inr (- 1))"
    using h e by (simp add: send_to_luftdaten_result split: sum.splits)
next
  assume h: "MEASURE_PM25 cfg \<and> MEASURE_PM10 cfg
        \<and> (map_of rd ''P1'' = None \<or> map_of rd ''P2'' = None)"
  show "fst (send_to_luftdaten cfg post rd serial) = Inl (KeyError ''P1'')
           \<or> fst (send_to_luftdaten cfg post rd serial) = Inl (KeyError ''P2'')"
    using h by (auto simp: send_to_luftdaten_def split: option.splits)
  show "fst (snd (send_to_luftdaten cfg post rd serial)) = []"
    using h by (auto simp: send_to_luftdaten_def split: option.splits)
next
  assume h: "\<not> (MEASURE_PM25 cfg \<and> MEASURE_PM10 cfg)"
  show "fst (send_to_luftdaten cfg post rd serial) = Inr (- 1)"
    using h by (auto simp: send_to_luftdaten_def)
  show "fst (snd (send_to_luftdaten cfg post rd serial)) = []"
    using h by (auto simp: send_to_luftdaten_def)
qed

theorem luftdaten_grouping_witness:
  "MEASURE_PM25 default_config \<and> MEASURE_PM10 default_config
   \<and> map_of sample_reading ''P1'' = Some (PyInt 5)
   \<and> map_of sample_reading ''P2'' = Some (PyInt 3)
   \<and> length (fst (snd (send_to_luftdaten default_config accepting_post sample_reading
                         ''0000abcd''))) = 2
   \<and> map_of [(''P2'', PyInt 3), (''P1'', PyInt 5)] ''P1'' = Some (PyInt 5)
   \<and> map_of [(''P2'', PyInt 3), (''P1'', PyInt 5)] ''P2'' = Some (PyInt 3)
   \<and> filter (\<lambda>i. \<not> startswith (fst i) ''P'') [(''P2'', PyInt 3), (''P1'', PyInt 5)] = []
   \<and> fst (snd (send_to_luftdaten default_config accepting_post
                  [(''P2'', PyInt 3), (''P1'', PyInt 5)] ''0000abcd''))
       = [\<lparr>x_pin = ''1'', x_sensor = ''0000abcd'',
            sensordatavalues = [(''P1'', PyInt 5), (''P2'', PyInt 3)]\<rparr>]
   \<and> fst (send_to_luftdaten default_config accepting_post
             [(''P2'', PyInt 3), (''P1'', PyInt 5)] ''0000abcd'') = Inr 0
   \<and> map_of ([] :: dict) ''P1'' = None
   \<and> fst (snd (send_to_luftdaten default_config accepting_post [] ''0000abcd'')) = []
   \<and> \<not> (MEASURE_PM25 (default_config\<lparr>MEASURE_PM25 := False\<rparr>)
          \<and> MEASURE_PM10 (default_config\<lparr>MEASURE_PM25 := False\<rparr>))
   \<and> fst (send_to_luftdaten (default_config\<lparr>MEASURE_PM25 := False\<rparr>) accepting_post
             sample_reading ''0000abcd'') = Inr (- 1)
   \<and> fst (snd (send_to_luftdaten (default_config\<lparr>MEASURE_PM25 := False\<rparr>) accepting_post
                  sample_reading ''0000abcd'')) = []"
proof -
  let ?pm = "[(''P2'', PyInt 3), (''P1'', PyInt 5)]"
  let ?off = "default_config\<lparr>MEASURE_PM25 := False\<rparr>"
  have cfg: "MEASURE_PM25 default_config \<and> MEASURE_PM10 default_config"
    by (simp add: default_config_def)
  have both: "map_of sample_reading ''P1'' = Some (PyInt 5)
                \<and> map_of sample_reading ''P2'' = Some (PyInt 3)"
    by (simp add: sample_reading_def)
  have climate: "filter (\<lambda>i. \<not> startswith (fst i) ''P'') sample_reading \<noteq> []"
    by (simp add: sample_reading_def startswith_def)
  have "fst (snd (send_to_luftdaten default_config accepting_post sample_reading ''0000abcd''))
        = \<lparr>x_pin = ''1'', x_sensor = ''0000abcd'',
            sensordatavalues = [(''P1'', PyInt 5), (''P2'', PyInt 3)]\<rparr>
          # (if filter (\<lambda>i. \<not> startswith (fst i) ''P'') sample_reading = [] then []
             else [\<lparr>x_pin = ''11'', x_sensor = ''0000abcd'',
                     sensordatavalues
                       = filter (\<lambda>i. \<not> startswith (fst i) ''P'') sample_reading\<rparr>])"
    using luftdaten_grouping [of default_config sample_reading "PyInt 5" "PyInt 3"
        accepting_post "''0000abcd''"] cfg both
    by blast
  then have two: "length (fst (snd (send_to_luftdaten default_config accepting_post
                    sample_reading ''0000abcd''))) = 2"
    using climate by simp
  have pm: "map_of ?pm ''P1'' = Some (PyInt 5) \<and> map_of ?pm ''P2'' = Some (PyInt 3)"
    by simp
  have none: "filter (\<lambda>i. \<not> startswith (fst i) ''P'') ?pm = []"
    by (simp add: startswith_def)
  note t = luftdaten_grouping [of default_config ?pm "PyInt 5" "PyInt 3"
      accepting_post "''0000abcd''"]
  have "fst (snd (send_to_luftdaten default_config accepting_post ?pm ''0000abcd''))
        = \<lparr>x_pin = ''1'', x_sensor = ''0000abcd'',
            sensordatavalues = [(''P1'', PyInt 5), (''P2'', PyInt 3)]\<rparr>
          # (if filter (\<lambda>i. \<not> startswith (fst i) ''P'') ?pm = [] then []
             else [\<lparr>x_pin = ''11'', x_sensor = ''0000abcd'',
                     sensordatavalues = filter (\<lambda>i. \<not> startswith (fst i) ''P'') ?pm\<rparr>])"
    using t cfg pm by blast
  then have one: "fst (snd (send_to_luftdaten default_config accepting_post ?pm ''0000abcd''))
        = [\<lparr>x_pin = ''1'', x_sensor = ''0000abcd'',
             sensordatavalues = [(''P1'', PyInt 5), (''P2'', PyInt 3)]\<rparr>]"
    using none by simp
  have "fst (send_to_luftdaten default_config accepting_post ?pm ''0000abcd'')
          = (case accepting_post \<lparr>x_pin = ''1'', x_sensor = ''0000abcd'',
                    sensordatavalues = [(''P1'', PyInt 5), (''P2'', PyInt 3)]\<rparr> of
               Inr r \<Rightarrow> if ok r then Inr 0 else Inr (- 1)
             | Inl e \<Rightarrow> Inr (- 1))"
    using t cfg pm none by blast
  then have good: "fst (send_to_luftdaten default_config accepting_post ?pm ''0000abcd'')
                     = Inr 0"
    by (simp add: accepting_post_def)
  have absent: "map_of ([] :: dict) ''P1'' = None"
    by simp
  have zero: "fst (snd (send_to_luftdaten default_config accepting_post [] ''0000abcd'')) = []"
    using luftdaten_grouping [of default_config "[]" _ _ accepting_post "''0000abcd''"]
      cfg absent
    by blast
  have off: "\<not> (MEASURE_PM25 ?off \<and> MEASURE_PM10 ?off)"
    by simp
  have refused: "fst (send_to_luftdaten ?off accepting_post sample_reading ''0000abcd'')
                   = Inr (- 1)
                 \<and> fst (snd (send_to_luftdaten ?off accepting_post sample_reading
                               ''0000abcd'')) = []"
    using luftdaten_grouping [of ?off sample_reading _ _ accepting_post "''0000abcd''"] off
    by blast
  show ?thesis
    using cfg both two pm none one good absent zero off refused by blast
qed

text \<open>The older script posts both groups whatever they hold.\<close>

lemma emi_send_to_luftdaten_two_posts:
  "snd (emi_send_to_luftdaten post vals ident)
     = [\<lparr>x_pin = ''1'', x_sensor = ident,
          sensordatavalues = filter (\<lambda>i. startswith (fst i) ''P'') vals\<rparr>,
        \<lparr>x_pin = ''11'', x_sensor = ident,
          sensordatavalues = filter (\<lambda>i. \<not> startswith (fst i) ''P'') vals\<rparr>]"
  by (simp add: emi_send_to_luftdaten_def Let_def)

section \<open>The parts of a pass\<close>

lemma sample_phase_not_due:
  "\<not> update_delay \<le> clock w - previous_time s \<Longrightarrow>
   sample_phase cfg str_py update_delay w s = (None, s)"
  by (simp add: sample_phase_def Let_def)

lemma sample_phase_keeps:
  "current_scene_id (snd (sample_phase cfg str_py update_delay w s)) = current_scene_id s"
  "mainloop_errors (snd (sample_phase cfg str_py update_delay w s)) = mainloop_errors s"
  "lcd (snd (sample_phase cfg str_py update_delay w s)) = lcd s"
  "table_name (snd (sample_phase cfg str_py update_delay w s)) = table_name s"
  by (auto simp: sample_phase_def Let_def split: prod.splits sum.splits option.splits)

lemma sample_phase_previous_time:
  "previous_time (snd (sample_phase cfg str_py update_delay w s))
     = (if update_delay \<le> clock w - previous_time s then clock w else previous_time s)"
  by (auto simp: sample_phase_def Let_def split: prod.splits sum.splits option.splits)

lemma sample_phase_pms:
  "pms (snd (sample_phase cfg str_py update_delay w s))
     = (if update_delay \<le> clock w - previous_time s
        then snd (get_sensor_data cfg w (pms s)) else pms s)"
  by (auto simp: sample_phase_def Let_def split: prod.splits sum.splits option.splits)

lemma scene_phase_keeps:
  "previous_time (snd (scene_phase w s)) = previous_time s"
  "data (snd (scene_phase w s)) = data s"
  "measurement_time (snd (scene_phase w s)) = measurement_time s"
  "mainloop_errors (snd (scene_phase w s)) = mainloop_errors s"
  "table_name (snd (scene_phase w s)) = table_name s"
  "pms (snd (scene_phase w s)) = pms s"
  "console (snd (scene_phase w s)) = console s"
  "db_rows (snd (scene_phase w s)) = db_rows s"
  "logged (snd (scene_phase w s)) = logged s"
  "lcd (snd (scene_phase w s)) = lcd s"
  by (simp_all add: scene_phase_def Let_def split: sum.splits)

lemma display_phase_keeps:
  "previous_time (snd (display_phase cfg str_py disp update_delay td w s)) = previous_time s"
  "data (snd (display_phase cfg str_py disp update_delay td w s)) = data s"
  "measurement_time (snd (display_phase cfg str_py disp update_delay td w s)) = measurement_time s"
  "current_scene_id (snd (display_phase cfg str_py disp update_delay td w s)) = current_scene_id s"
  "mainloop_errors (snd (display_phase cfg str_py disp update_delay td w s)) = mainloop_errors s"
  "table_name (snd (display_phase cfg str_py disp update_delay td w s)) = table_name s"
  "pms (snd (display_phase cfg str_py disp update_delay td w s)) = pms s"
  "console (snd (display_phase cfg str_py disp update_delay td w s)) = console s"
  "db_rows (snd (display_phase cfg str_py disp update_delay td w s)) = db_rows s"
  "logged (snd (display_phase cfg str_py disp update_delay td w s)) = logged s"
  by (simp_all add: display_phase_def Let_def split: option.splits)

text \<open>The pass as a whole, field by field.\<close>

lemma tick_sample_fields:
  "previous_time (tick cfg str_py disp update_delay w s)
     = previous_time (snd (sample_phase cfg str_py update_delay w s))"
  "data (tick cfg str_py disp update_delay w s)
     = data (snd (sample_phase cfg str_py update_delay w s))"
  "measurement_time (tick cfg str_py disp update_delay w s)
     = measurement_time (snd (sample_phase cfg str_py update_delay w s))"
  "pms (tick cfg str_py disp update_delay w s)
     = pms (snd (sample_phase cfg str_py update_delay w s))"
  "console (tick cfg str_py disp update_delay w s)
     = console (snd (sample_phase cfg str_py update_delay w s))"
  "db_rows (tick cfg str_py disp update_delay w s)
     = db_rows (snd (sample_phase cfg str_py update_delay w s))"
  "table_name (tick cfg str_py disp update_delay w s) = table_name s"
proof -
  obtain r1 s1 where p1: "sample_phase cfg str_py update_delay w s = (r1, s1)"
    by (cases "sample_phase cfg str_py update_delay w s")
  obtain r2 s2 where p2: "scene_phase w s1 = (r2, s2)"
    by (cases "scene_phase w s1")
  obtain r3 s3 where
    p3: "display_phase cfg str_py disp update_delay (clock w - previous_time s) w s2 = (r3, s3)"
    by (cases "display_phase cfg str_py disp update_delay (clock w - previous_time s) w s2")
  note k1 = sample_phase_keeps [of cfg str_py update_delay w s, unfolded p1 snd_conv]
  note k2 = scene_phase_keeps [of w s1, unfolded p2 snd_conv]
  note k3 = display_phase_keeps
    [of cfg str_py disp update_delay "clock w - previous_time s" w s2, unfolded p3 snd_conv]
  show "previous_time (tick cfg str_py disp update_delay w s)
     = previous_time (snd (sample_phase cfg str_py update_delay w s))"
    "data (tick cfg str_py disp update_delay w s)
     = data (snd (sample_phase cfg str_py update_delay w s))"
    "measurement_time (tick cfg str_py disp update_delay w s)
     = measurement_time (snd (sample_phase cfg str_py update_delay w s))"
    "pms (tick cfg str_py disp update_delay w s)
     = pms (snd (sample_phase cfg str_py update_delay w s))"
    "console (tick cfg str_py disp update_delay w s)
     = console (snd (sample_phase cfg str_py update_delay w s))"
    "db_rows (tick cfg str_py disp update_delay w s)
     = db_rows (snd (sample_phase cfg str_py update_delay w s))"
    "table_name (tick cfg str_py disp update_delay w s) = table_name s"
    by (simp_all add: tick_def Let_def p1 p2 p3 k1 k2 k3 split: option.splits)
qed


lemma sample_phase_acquired:
  assumes "update_delay \<le> clock w - previous_time s"
    and "get_sensor_data cfg w (pms s) = (Inr (d, t), p)"
  shows "data (snd (sample_phase cfg str_py update_delay w s)) = d"
    and "measurement_time (snd (sample_phase cfg str_py update_delay w s)) = t"
  using assms
  by (auto simp: sample_phase_def Let_def split: prod.splits sum.splits option.splits)

lemma sample_phase_failed:
  assumes "update_delay \<le> clock w - previous_time s"
    and "get_sensor_data cfg w (pms s) = (Inl e, p)"
  shows "sample_phase cfg str_py update_delay w s
           = (Some e, s\<lparr>previous_time := clock w, pms := p\<rparr>)"
  using assms by (simp add: sample_phase_def Let_def)

section \<open>Cadence\<close>

lemma tick_previous_time:
  "previous_time (tick cfg str_py disp update_delay w s)
     = (if update_delay \<le> clock w - previous_time s then clock w else previous_time s)"
  by (simp add: tick_sample_fields sample_phase_previous_time)

lemma tick_previous_time_mono:
  "0 \<le> update_delay \<Longrightarrow>
   previous_time s \<le> previous_time (tick cfg str_py disp update_delay w s)"
  by (simp add: tick_previous_time)

lemma length_trace [simp]: "length (trace cfg str_py disp update_delay ws s) = length ws"
  by (induction ws arbitrary: s) simp_all

lemma trace_previous_time_mono:
  assumes "0 \<le> update_delay" and "j < length ws"
  shows "previous_time s \<le> previous_time (trace cfg str_py disp update_delay ws s ! j)"
  using assms(2)
proof (induction ws arbitrary: s j)
  case Nil
  then show ?case by simp
next
  case (Cons w ws)
  show ?case
  proof (cases j)
    case 0
    then show ?thesis by simp
  next
    case (Suc k)
    with Cons.prems have "k < length ws" by simp
    then have "previous_time (tick cfg str_py disp update_delay w s)
                 \<le> previous_time (trace cfg str_py disp update_delay ws
                                     (tick cfg str_py disp update_delay w s) ! k)"
      by (rule Cons.IH)
    with tick_previous_time_mono [OF assms(1), of s cfg str_py disp w] Suc
    show ?thesis by simp
  qed
qed

lemma fires_spaced:
  assumes ud: "0 \<le> update_delay" and "i < j" and "j < length ws"
    and "update_delay \<le> clock (ws ! i)
           - previous_time (trace cfg str_py disp update_delay ws s ! i)"
    and "update_delay \<le> clock (ws ! j)
           - previous_time (trace cfg str_py disp update_delay ws s ! j)"
  shows "update_delay \<le> clock (ws ! j) - clock (ws ! i)"
  using assms(2-)
proof (induction ws arbitrary: s i j)
  case Nil
  then show ?case by simp
next
  case (Cons w ws)
  let ?s' = "tick cfg str_py disp update_delay w s"
  from Cons.prems(1) obtain k where j: "j = Suc k" by (cases j) auto
  with Cons.prems(2) have k: "k < length ws" by simp
  show ?case
  proof (cases i)
    case 0
    with Cons.prems(3) have "update_delay \<le> clock w - previous_time s" by simp
    then have "previous_time ?s' = clock w" by (simp add: tick_previous_time)
    with trace_previous_time_mono [OF ud k, of ?s' cfg str_py disp]
    have "clock w \<le> previous_time (trace cfg str_py disp update_delay ws ?s' ! k)" by simp
    with Cons.prems(4) j 0 show ?thesis by simp
  next
    case (Suc i')
    with Cons.prems j k have "update_delay \<le> clock (ws ! k) - clock (ws ! i')"
      by (intro Cons.IH [of i' k ?s']) simp_all
    with j Suc show ?thesis by simp
  qed
qed


lemma tick_not_due:
  assumes "\<not> update_delay \<le> clock w - previous_time s"
  shows "previous_time (tick cfg str_py disp update_delay w s) = previous_time s"
    and "data (tick cfg str_py disp update_delay w s) = data s"
    and "measurement_time (tick cfg str_py disp update_delay w s) = measurement_time s"
    and "pms (tick cfg str_py disp update_delay w s) = pms s"
    and "console (tick cfg str_py disp update_delay w s) = console s"
    and "db_rows (tick cfg str_py disp update_delay w s) = db_rows s"
  using assms by (simp_all add: tick_sample_fields sample_phase_not_due)

text \<open>
  C2: with a positive \<open>MEASUREMENT_FREQUENCY\<close> the interval is
  \<open>I = 60 / MEASUREMENT_FREQUENCY\<close>. A pass acquires a sample exactly when
  \<open>now - previous_time \<ge> I\<close>, and then sets \<open>previous_time\<close> to \<open>now\<close>; otherwise it
  leaves the reference time, the reading, the sensor, the console and the database as
  they were. In any run two passes that both sample are at least \<open>I\<close> apart by the
  clock. After a stall of ten intervals the next pass samples once and takes its own
  time as the new reference, so a pass that follows within less than \<open>I\<close> does not
  sample.
\<close>

theorem cadence_control:
  assumes "0 < MEASUREMENT_FREQUENCY cfg" and "update_delay_of cfg = Inr I"
  shows "I = 60 / MEASUREMENT_FREQUENCY cfg \<and> 0 < I
    \<and> previous_time (tick cfg str_py disp I w s)
        = (if I \<le> clock w - previous_time s then clock w else previous_time s)
    \<and> pms (tick cfg str_py disp I w s)
        = (if I \<le> clock w - previous_time s then snd (get_sensor_data cfg w (pms s))
           else pms s)
    \<and> (I \<le> clock w - previous_time s \<longrightarrow>
         (\<forall>d t p. get_sensor_data cfg w (pms s) = (Inr (d, t), p) \<longrightarrow>
            data (tick cfg str_py disp I w s) = d
            \<and> measurement_time (tick cfg str_py disp I w s) = t))
    \<and> (\<not> I \<le> clock w - previous_time s \<longrightarrow>
         data (tick cfg str_py disp I w s) = data s
         \<and> measurement_time (tick cfg str_py disp I w s) = measurement_time s
         \<and> console (tick cfg str_py disp I w s) = console s
         \<and> db_rows (tick cfg str_py disp I w s) = db_rows s)
    \<and> (\<forall>i j. i < j \<and> j < length ws
           \<and> I \<le> clock (ws ! i) - previous_time (trace cfg str_py disp I ws s ! i)
           \<and> I \<le> clock (ws ! j) - previous_time (trace cfg str_py disp I ws s ! j) \<longrightarrow>
           I \<le> clock (ws ! j) - clock (ws ! i))
    \<and> (10 * I \<le> clock w - previous_time s \<and> clock w' - clock w < I \<longrightarrow>
         previous_time (tick cfg str_py disp I w s) = clock w
         \<and> pms (tick cfg str_py disp I w s) = snd (get_sensor_data cfg w (pms s))
         \<and> previous_time (tick cfg str_py disp I w' (tick cfg str_py disp I w s)) = clock w
         \<and> pms (tick cfg str_py disp I w' (tick cfg str_py disp I w s))
             = pms (tick cfg str_py disp I w s)
         \<and> data (tick cfg str_py disp I w' (tick cfg str_py disp I w s))
             = data (tick cfg str_py disp I w s)
         \<and> console (tick cfg str_py disp I w' (tick cfg str_py disp I w s))
             = console (tick cfg str_py disp I w s)
         \<and> db_rows (tick cfg str_py disp I w' (tick cfg str_py disp I w s))
             = db_rows (tick cfg str_py disp I w s))"
proof -
  have I: "I = 60 / MEASUREMENT_FREQUENCY cfg" and pos: "0 < I"
    using assms by (auto simp: update_delay_of_def split: if_splits)
  have prev: "previous_time (tick cfg str_py disp I w s)
        = (if I \<le> clock w - previous_time s then clock w else previous_time s)"
    by (rule tick_previous_time)
  have sensor: "pms (tick cfg str_py disp I w s)
        = (if I \<le> clock w - previous_time s then snd (get_sensor_data cfg w (pms s))
           else pms s)"
    by (simp add: tick_sample_fields sample_phase_pms)
  have due: "data (tick cfg str_py disp I w s) = d
            \<and> measurement_time (tick cfg str_py disp I w s) = t"
    if "I \<le> clock w - previous_time s" "get_sensor_data cfg w (pms s) = (Inr (d, t), p)"
    for d t p
    using that by (simp add: tick_sample_fields sample_phase_acquired)
  have idle: "data (tick cfg str_py disp I w s) = data s
         \<and> measurement_time (tick cfg str_py disp I w s) = measurement_time s
         \<and> console (tick cfg str_py disp I w s) = console s
         \<and> db_rows (tick cfg str_py disp I w s) = db_rows s"
    if "\<not> I \<le> clock w - previous_time s"
    using that by (simp add: tick_not_due)
  have spaced: "I \<le> clock (ws ! j) - clock (ws ! i)"
    if "i < j" "j < length ws"
      "I \<le> clock (ws ! i) - previous_time (trace cfg str_py disp I ws s ! i)"
      "I \<le> clock (ws ! j) - previous_time (trace cfg str_py disp I ws s ! j)"
    for i j
    using pos that by (intro fires_spaced [of I i j ws cfg str_py disp s]) simp_all
  have stall: "previous_time (tick cfg str_py disp I w s) = clock w
         \<and> pms (tick cfg str_py disp I w s) = snd (get_sensor_data cfg w (pms s))
         \<and> previous_time (tick cfg str_py disp I w' (tick cfg str_py disp I w s)) = clock w
         \<and> pms (tick cfg str_py disp I w' (tick cfg str_py disp I w s))
             = pms (tick cfg str_py disp I w s)
         \<and> data (tick cfg str_py disp I w' (tick cfg str_py disp I w s))
             = data (tick cfg str_py disp I w s)
         \<and> console (tick cfg str_py disp I w' (tick cfg str_py disp I w s))
             = console (tick cfg str_py disp I w s)
         \<and> db_rows (tick cfg str_py disp I w' (tick cfg str_py disp I w s))
             = db_rows (tick cfg str_py disp I w s)"
    if "10 * I \<le> clock w - previous_time s" "clock w' - clock w < I"
  proof -
    from that(1) pos have fire: "I \<le> clock w - previous_time s" by simp
    then have p: "previous_time (tick cfg str_py disp I w s) = clock w"
      by (simp add: prev)
    with that(2) have
      "\<not> I \<le> clock w' - previous_time (tick cfg str_py disp I w s)"
      by simp
    from tick_not_due [OF this] p fire sensor show ?thesis by simp
  qed
  from I pos prev sensor due idle spaced stall show ?thesis by blast
qed


theorem cadence_control_witness:
  "0 < MEASUREMENT_FREQUENCY default_config
   \<and> update_delay_of default_config = Inr 30
   \<and> (10 :: real) * 30 \<le> clock (sample_world\<lparr>clock := 300\<rparr>)
         - previous_time (initial_state 0 ''data_1'' sample_sensor)
   \<and> clock (sample_world\<lparr>clock := 301\<rparr>) - clock (sample_world\<lparr>clock := 300\<rparr>) < 30
   \<and> previous_time (tick default_config sample_str sample_display 30
         (sample_world\<lparr>clock := 300\<rparr>) (initial_state 0 ''data_1'' sample_sensor)) = 300
   \<and> previous_time (tick default_config sample_str sample_display 30
         (sample_world\<lparr>clock := 301\<rparr>)
         (tick default_config sample_str sample_display 30
            (sample_world\<lparr>clock := 300\<rparr>) (initial_state 0 ''data_1'' sample_sensor))) = 300
   \<and> db_rows (tick default_config sample_str sample_display 30
         (sample_world\<lparr>clock := 301\<rparr>)
         (tick default_config sample_str sample_display 30
            (sample_world\<lparr>clock := 300\<rparr>) (initial_state 0 ''data_1'' sample_sensor)))
       = db_rows (tick default_config sample_str sample_display 30
            (sample_world\<lparr>clock := 300\<rparr>) (initial_state 0 ''data_1'' sample_sensor))
   \<and> (30 :: real) \<le> clock ([sample_world\<lparr>clock := 300\<rparr>, sample_world\<lparr>clock := 301\<rparr>,
                           sample_world\<lparr>clock := 330\<rparr>] ! 2)
         - clock ([sample_world\<lparr>clock := 300\<rparr>, sample_world\<lparr>clock := 301\<rparr>,
                   sample_world\<lparr>clock := 330\<rparr>] ! 0)"
proof -
  let ?w = "sample_world\<lparr>clock := 300\<rparr>"
  let ?w' = "sample_world\<lparr>clock := 301\<rparr>"
  let ?w'' = "sample_world\<lparr>clock := 330\<rparr>"
  let ?s = "initial_state 0 ''data_1'' sample_sensor"
  let ?ws = "[?w, ?w', ?w'']"
  let ?tick = "tick default_config sample_str sample_display 30"
  have f: "0 < MEASUREMENT_FREQUENCY default_config"
    by (simp add: default_config_def)
  have u: "update_delay_of default_config = Inr 30"
    by (simp add: update_delay_of_def default_config_def)
  note t = cadence_control [OF f u, of sample_str sample_display ?w ?s ?ws ?w']
  have stall: "(10 :: real) * 30 \<le> clock ?w - previous_time ?s"
    and quick: "clock ?w' - clock ?w < 30"
    by (simp_all add: initial_state_def)
  have after: "previous_time (?tick ?w ?s) = clock ?w
         \<and> previous_time (?tick ?w' (?tick ?w ?s)) = clock ?w
         \<and> db_rows (?tick ?w' (?tick ?w ?s)) = db_rows (?tick ?w ?s)"
    using t stall quick by blast
  have tr0: "trace default_config sample_str sample_display 30 ?ws ?s ! 0 = ?s"
    and tr2: "trace default_config sample_str sample_display 30 ?ws ?s ! 2
                = ?tick ?w' (?tick ?w ?s)"
    by (simp_all add: numeral_2_eq_2)
  have d0: "30 \<le> clock (?ws ! 0)
              - previous_time (trace default_config sample_str sample_display 30 ?ws ?s ! 0)"
    unfolding tr0 by (simp add: initial_state_def)
  have d2: "30 \<le> clock (?ws ! 2)
              - previous_time (trace default_config sample_str sample_display 30 ?ws ?s ! 2)"
    unfolding tr2 using after by (simp add: numeral_2_eq_2)
  have "(0 :: nat) < 2 \<and> 2 < length ?ws" by simp
  with t d0 d2 have spaced: "30 \<le> clock (?ws ! 2) - clock (?ws ! 0)"
    by blast
  show ?thesis
    using f u stall quick after spaced by simp
qed

section \<open>Display scenes\<close>

lemma scene_phase_scene:
  "current_scene_id (snd (scene_phase w s))
     = (case ltr559_proximity w of
          Inl e \<Rightarrow> current_scene_id s
        | Inr proximity \<Rightarrow>
            if 1500 < proximity
            then (if 2 < current_scene_id s + 1 then 0 else current_scene_id s + 1)
            else current_scene_id s)"
  by (simp add: scene_phase_def Let_def split: sum.splits)

lemma scene_phase_result:
  "fst (scene_phase w s) = (case ltr559_proximity w of Inl e \<Rightarrow> Some e | Inr p \<Rightarrow> None)"
  by (simp add: scene_phase_def Let_def split: sum.splits)

lemma tick_sample_raises:
  assumes "sample_phase cfg str_py update_delay w s = (Some e, s1)"
  shows "tick cfg str_py disp update_delay w s
           = s1\<lparr>mainloop_errors := True, logged := logged s1 @ [Critical e]\<rparr>"
  using assms by (simp add: tick_def Let_def)

lemma tick_scene:
  "current_scene_id (tick cfg str_py disp update_delay w s)
     = (case fst (sample_phase cfg str_py update_delay w s) of
          Some e \<Rightarrow> current_scene_id s
        | None \<Rightarrow>
           (case ltr559_proximity w of
              Inl e \<Rightarrow> current_scene_id s
            | Inr proximity \<Rightarrow>
                if 1500 < proximity
                then (if 2 < current_scene_id s + 1 then 0 else current_scene_id s + 1)
                else current_scene_id s))"
proof -
  obtain r1 s1 where p1: "sample_phase cfg str_py update_delay w s = (r1, s1)"
    by (cases "sample_phase cfg str_py update_delay w s")
  obtain r2 s2 where p2: "scene_phase w s1 = (r2, s2)"
    by (cases "scene_phase w s1")
  obtain r3 s3 where
    p3: "display_phase cfg str_py disp update_delay (clock w - previous_time s) w s2 = (r3, s3)"
    by (cases "display_phase cfg str_py disp update_delay (clock w - previous_time s) w s2")
  have k1: "current_scene_id s1 = current_scene_id s"
    using sample_phase_keeps(1) [of cfg str_py update_delay w s] by (simp add: p1)
  have k2: "current_scene_id s2
     = (case ltr559_proximity w of
          Inl e \<Rightarrow> current_scene_id s
        | Inr proximity \<Rightarrow>
            if 1500 < proximity
            then (if 2 < current_scene_id s + 1 then 0 else current_scene_id s + 1)
            else current_scene_id s)"
    using scene_phase_scene [of w s1, unfolded p2 snd_conv k1] .
  have k3: "current_scene_id s3 = current_scene_id s2"
    using display_phase_keeps(4)
      [of cfg str_py disp update_delay "clock w - previous_time s" w s2]
    by (simp add: p3)
  have r2: "r2 = (case ltr559_proximity w of Inl e \<Rightarrow> Some e | Inr p \<Rightarrow> None)"
    using scene_phase_result [of w s1] by (simp add: p2)
  show ?thesis
    by (cases r1; cases r2; cases r3)
       (use r2 in \<open>auto simp: tick_def Let_def p1 p2 p3 k1 k2 k3 split: sum.splits\<close>)
qed

lemma tick_scene_range:
  assumes "0 \<le> current_scene_id s" "current_scene_id s < 3"
  shows "0 \<le> current_scene_id (tick cfg str_py disp update_delay w s)
       \<and> current_scene_id (tick cfg str_py disp update_delay w s) < 3"
  using assms by (simp add: tick_scene split: option.splits sum.splits)

lemma run_scene_range:
  assumes "0 \<le> current_scene_id s" "current_scene_id s < 3"
  shows "0 \<le> current_scene_id (run cfg str_py disp update_delay ws s)
       \<and> current_scene_id (run cfg str_py disp update_delay ws s) < 3"
  using assms
proof (induction ws arbitrary: s)
  case Nil
  then show ?case by simp
next
  case (Cons w ws)
  from tick_scene_range [OF Cons.prems, of cfg str_py disp update_delay w]
  show ?case by (simp add: Cons.IH)
qed

text \<open>
  C7: the scene index starts at 0 and is 0, 1 or 2 after any number of passes. On a
  pass that reaches the proximity sensor (nothing raised before it) a proximity of 1500
  or less leaves the index as it is, and a proximity above 1500 advances it by one,
  from 2 back to 0. A pass that raised before polling the sensor leaves it as it is.
\<close>

theorem scene_state_machine:
  "current_scene_id (initial_state start_time tbl sensor) = 0
   \<and> 0 \<le> current_scene_id
            (run cfg str_py disp update_delay ws (initial_state start_time tbl sensor))
   \<and> current_scene_id
         (run cfg str_py disp update_delay ws (initial_state start_time tbl sensor)) < 3
   \<and> (0 \<le> current_scene_id s \<and> current_scene_id s < 3
        \<and> fst (sample_phase cfg str_py update_delay w s) = None
        \<and> ltr559_proximity w = Inr proximity \<longrightarrow>
        current_scene_id (tick cfg str_py disp update_delay w s)
          = (if proximity \<le> 1500 then current_scene_id s
             else (current_scene_id s + 1) mod 3))
   \<and> (fst (sample_phase cfg str_py update_delay w s) = Some e \<longrightarrow>
        current_scene_id (tick cfg str_py disp update_delay w s) = current_scene_id s)"
proof -
  have init: "current_scene_id (initial_state start_time tbl sensor) = 0"
    by (simp add: initial_state_def)
  then have range: "0 \<le> current_scene_id
            (run cfg str_py disp update_delay ws (initial_state start_time tbl sensor))
     \<and> current_scene_id
         (run cfg str_py disp update_delay ws (initial_state start_time tbl sensor)) < 3"
    by (intro run_scene_range) simp_all
  have step: "current_scene_id (tick cfg str_py disp update_delay w s)
          = (if proximity \<le> 1500 then current_scene_id s
             else (current_scene_id s + 1) mod 3)"
    if "0 \<le> current_scene_id s" "current_scene_id s < 3"
       "fst (sample_phase cfg str_py update_delay w s) = None"
       "ltr559_proximity w = Inr proximity"
  proof -
    have "(if 2 < current_scene_id s + 1 then 0 else current_scene_id s + 1)
            = (current_scene_id s + 1) mod 3"
    proof -
      from that(1,2) have "current_scene_id s = 0 \<or> current_scene_id s = 1
                             \<or> current_scene_id s = 2"
        by arith
      then show ?thesis by auto
    qed
    with that(3,4) show ?thesis by (simp add: tick_scene)
  qed
  have skip: "current_scene_id (tick cfg str_py disp update_delay w s) = current_scene_id s"
    if "fst (sample_phase cfg str_py update_delay w s) = Some e"
    using that by (simp add: tick_scene)
  from init range step skip show ?thesis by blast
qed


theorem scene_state_machine_witness:
  "(0 :: int) \<le> current_scene_id ((initial_state 0 ''data_1'' sample_sensor)\<lparr>current_scene_id := 2\<rparr>)
   \<and> current_scene_id ((initial_state 0 ''data_1'' sample_sensor)\<lparr>current_scene_id := 2\<rparr>) < 3
   \<and> fst (sample_phase default_config sample_str 30
            (sample_world\<lparr>clock := 15, ltr559_proximity := Inr 1501\<rparr>)
            ((initial_state 0 ''data_1'' sample_sensor)\<lparr>current_scene_id := 2\<rparr>)) = None
   \<and> ltr559_proximity (sample_world\<lparr>clock := 15, ltr559_proximity := Inr 1501\<rparr>) = Inr 1501
   \<and> current_scene_id (tick default_config sample_str sample_display 30
         (sample_world\<lparr>clock := 15, ltr559_proximity := Inr 1501\<rparr>)
         ((initial_state 0 ''data_1'' sample_sensor)\<lparr>current_scene_id := 2\<rparr>)) = 0
   \<and> fst (sample_phase default_config sample_str 30
            (sample_world\<lparr>clock := 15, ltr559_proximity := Inr 1500\<rparr>)
            ((initial_state 0 ''data_1'' sample_sensor)\<lparr>current_scene_id := 2\<rparr>)) = None
   \<and> ltr559_proximity (sample_world\<lparr>clock := 15, ltr559_proximity := Inr 1500\<rparr>) = Inr 1500
   \<and> current_scene_id (tick default_config sample_str sample_display 30
         (sample_world\<lparr>clock := 15, ltr559_proximity := Inr 1500\<rparr>)
         ((initial_state 0 ''data_1'' sample_sensor)\<lparr>current_scene_id := 2\<rparr>)) = 2
   \<and> fst (sample_phase default_config sample_str 30
            (sample_world\<lparr>ltr559_proximity := Inr 1501\<rparr>)
            (initial_state 0 ''data_1'' flaky_sensor)) = Some ReadTimeoutError
   \<and> current_scene_id (tick default_config sample_str sample_display 30
         (sample_world\<lparr>ltr559_proximity := Inr 1501\<rparr>)
         (initial_state 0 ''data_1'' flaky_sensor)) = 0"
proof -
  let ?s = "(initial_state 0 ''data_1'' sample_sensor)\<lparr>current_scene_id := 2\<rparr>"
  let ?near = "sample_world\<lparr>clock := 15, ltr559_proximity := Inr 1501\<rparr>"
  let ?far = "sample_world\<lparr>clock := 15, ltr559_proximity := Inr 1500\<rparr>"
  let ?due = "sample_world\<lparr>ltr559_proximity := Inr 1501\<rparr>"
  let ?f = "initial_state 0 ''data_1'' flaky_sensor"
  have range: "(0 :: int) \<le> current_scene_id ?s \<and> current_scene_id ?s < 3"
    by simp
  have early: "\<not> (30 :: real) \<le> clock ?near - previous_time ?s"
    "\<not> (30 :: real) \<le> clock ?far - previous_time ?s"
    by (simp_all add: initial_state_def)
  have near: "fst (sample_phase default_config sample_str 30 ?near ?s) = None
              \<and> ltr559_proximity ?near = Inr 1501"
    using sample_phase_not_due [OF early(1)] by simp
  have far: "fst (sample_phase default_config sample_str 30 ?far ?s) = None
              \<and> ltr559_proximity ?far = Inr 1500"
    using sample_phase_not_due [OF early(2)] by simp
  have "current_scene_id (tick default_config sample_str sample_display 30 ?near ?s)
          = (if (1501 :: int) \<le> 1500 then current_scene_id ?s
             else (current_scene_id ?s + 1) mod 3)"
    using scene_state_machine [of _ _ _ default_config sample_str _ 30 _ ?s ?near 1501]
      range near
    by blast
  then have turned: "current_scene_id (tick default_config sample_str sample_display 30
                       ?near ?s) = 0"
    by simp
  have "current_scene_id (tick default_config sample_str sample_display 30 ?far ?s)
          = (if (1500 :: int) \<le> 1500 then current_scene_id ?s
             else (current_scene_id ?s + 1) mod 3)"
    using scene_state_machine [of _ _ _ default_config sample_str _ 30 _ ?s ?far 1500]
      range far
    by blast
  then have kept: "current_scene_id (tick default_config sample_str sample_display 30
                     ?far ?s) = 2"
    by simp
  have "get_sensor_data default_config ?due (pms ?f)
          = (Inl ReadTimeoutError, \<lparr>pending = [Inr (3, 5)], reads = 1, resets = 0\<rparr>)"
    by (simp add: get_sensor_data_def sample_world_def flaky_sensor_def initial_state_def
        default_config_def get_cpu_temperature_def compensate_temperature_def
        pms5003_read_def Let_def)
  moreover have "(30 :: real) \<le> clock ?due - previous_time ?f"
    by (simp add: sample_world_def initial_state_def)
  ultimately have raised: "fst (sample_phase default_config sample_str 30 ?due ?f)
                             = Some ReadTimeoutError"
    by (simp add: sample_phase_failed)
  have "current_scene_id (tick default_config sample_str sample_display 30 ?due ?f)
          = current_scene_id ?f"
    using scene_state_machine [of _ _ _ default_config sample_str sample_display 30 _ ?f ?due]
      raised
    by blast
  then have missed: "current_scene_id (tick default_config sample_str sample_display 30
                       ?due ?f) = 0"
    by (simp add: initial_state_def)
  show ?thesis
    using range near turned far kept raised missed by blast
qed


section \<open>Progress bar\<close>

lemma tick_frame:
  assumes "fst (sample_phase cfg str_py update_delay w s) = None"
    and "ltr559_proximity w = Inr proximity"
    and "display_raises w = None"
    and "update_delay \<noteq> 0"
  shows "lcd (tick cfg str_py disp update_delay w s)
           = lcd s
             @ [display_status_bg disp (mainloop_errors s)
                @ display_main_scene cfg str_py
                    (current_scene_id (tick cfg str_py disp update_delay w s))
                    (take (length (measurement_time (tick cfg str_py disp update_delay w s)) - 7)
                       (measurement_time (tick cfg str_py disp update_delay w s)))
                    (data (tick cfg str_py disp update_delay w s))
                @ display_progress_bar disp ((clock w - previous_time s) / update_delay)]"
proof -
  obtain s1 where p1: "sample_phase cfg str_py update_delay w s = (None, s1)"
    using assms(1) by (cases "sample_phase cfg str_py update_delay w s") simp
  obtain s2 where p2: "scene_phase w s1 = (None, s2)"
    using scene_phase_result [of w s1] assms(2) by (cases "scene_phase w s1") simp
  have k1: "mainloop_errors s1 = mainloop_errors s" "lcd s1 = lcd s"
    using sample_phase_keeps [of cfg str_py update_delay w s] by (simp_all add: p1)
  have k2: "mainloop_errors s2 = mainloop_errors s" "lcd s2 = lcd s"
    using scene_phase_keeps [of w s1] by (simp_all add: p2 k1)
  show ?thesis
    using assms(3,4)
    by (simp add: tick_def Let_def p1 p2 k2 display_phase_def)
qed

lemma tick_no_frame:
  assumes "fst (sample_phase cfg str_py update_delay w s) \<noteq> None
           \<or> (\<exists>e. ltr559_proximity w = Inl e) \<or> display_raises w \<noteq> None
           \<or> update_delay = 0"
  shows "lcd (tick cfg str_py disp update_delay w s) = lcd s"
proof -
  obtain r1 s1 where p1: "sample_phase cfg str_py update_delay w s = (r1, s1)"
    by (cases "sample_phase cfg str_py update_delay w s")
  obtain r2 s2 where p2: "scene_phase w s1 = (r2, s2)"
    by (cases "scene_phase w s1")
  have k1: "lcd s1 = lcd s"
    using sample_phase_keeps [of cfg str_py update_delay w s] by (simp add: p1)
  have k2: "lcd s2 = lcd s"
    using scene_phase_keeps [of w s1] by (simp add: p2 k1)
  have r2: "r2 = (case ltr559_proximity w of Inl e \<Rightarrow> Some e | Inr p \<Rightarrow> None)"
    using scene_phase_result [of w s1] by (simp add: p2)
  show ?thesis
    using assms r2
    by (cases r1; cases r2)
       (auto simp: tick_def Let_def p1 p2 k1 k2 display_phase_def split: sum.splits)
qed

text \<open>
  C6, as stated, caps the progress value at 1. On the first pass after a stall of ten
  intervals (interval 30 s, 300 s since the reference time) the bar is drawn to
  \<open>x = 1600\<close> on a display 160 wide: the value handed to \<open>display_progress_bar\<close>
  is 10, where \<open>min(1, 10)\<close> would draw to \<open>x = 160\<close>.
\<close>

theorem progress_unclamped_counterexample:
  "last (last (lcd (tick default_config sample_str sample_display 30
                      (sample_world\<lparr>clock := 300\<rparr>)
                      (initial_state 0 ''data_1'' sample_sensor))))
     = Rectangle (0, 72, 1600, 80) Lime
   \<and> display_progress_bar sample_display (min 1 ((300 - 0) / 30))
       = [Rectangle (0, 72, 160, 80) Lime]"
  by (simp add: tick_def sample_phase_def scene_phase_def display_phase_def Let_def
      initial_state_def sample_world_def sample_sensor_def sample_display_def default_config_def
      get_sensor_data_def get_cpu_temperature_def compensate_temperature_def pms5003_read_def
      display_status_bg_def display_main_scene_def display_progress_bar_def int_trunc_def)


text \<open>
  C6, amended: on every pass that reaches the display, the value driving the progress
  bar is \<open>elapsed / interval\<close>, with the elapsed time measured from the reference time
  the pass started with, and the bar is drawn to \<open>int(width * value)\<close>; no cap is
  applied. For a positive interval the value is below 1 exactly on the passes that do
  not sample (and at least 1 on those that do), and it is not negative as long as the
  clock has not gone back behind the reference time.
\<close>

theorem progress_fraction:
  "(fst (sample_phase cfg str_py update_delay w s) = None
      \<and> ltr559_proximity w = Inr proximity \<and> display_raises w = None
      \<and> update_delay \<noteq> 0 \<longrightarrow>
      lcd (tick cfg str_py disp update_delay w s)
        = lcd s
          @ [display_status_bg disp (mainloop_errors s)
             @ display_main_scene cfg str_py
                 (current_scene_id (tick cfg str_py disp update_delay w s))
                 (take (length (measurement_time (tick cfg str_py disp update_delay w s)) - 7)
                    (measurement_time (tick cfg str_py disp update_delay w s)))
                 (data (tick cfg str_py disp update_delay w s))
             @ display_progress_bar disp ((clock w - previous_time s) / update_delay)])
   \<and> display_progress_bar disp percent
       = [Rectangle (0, height disp - 8, int_trunc (of_int (width disp) * percent),
                     height disp) Lime]
   \<and> (0 < update_delay \<longrightarrow>
        ((clock w - previous_time s) / update_delay < 1)
          = (\<not> update_delay \<le> clock w - previous_time s))
   \<and> (0 < update_delay \<and> previous_time s \<le> clock w \<longrightarrow>
        0 \<le> (clock w - previous_time s) / update_delay)"
proof -
  have frame: "lcd (tick cfg str_py disp update_delay w s)
        = lcd s
          @ [display_status_bg disp (mainloop_errors s)
             @ display_main_scene cfg str_py
                 (current_scene_id (tick cfg str_py disp update_delay w s))
                 (take (length (measurement_time (tick cfg str_py disp update_delay w s)) - 7)
                    (measurement_time (tick cfg str_py disp update_delay w s)))
                 (data (tick cfg str_py disp update_delay w s))
             @ display_progress_bar disp ((clock w - previous_time s) / update_delay)]"
    if "fst (sample_phase cfg str_py update_delay w s) = None"
      "ltr559_proximity w = Inr proximity" "display_raises w = None" "update_delay \<noteq> 0"
    using that by (rule tick_frame)
  have bar: "display_progress_bar disp percent
       = [Rectangle (0, height disp - 8, int_trunc (of_int (width disp) * percent),
                     height disp) Lime]"
    by (simp add: display_progress_bar_def)
  have below: "((clock w - previous_time s) / update_delay < 1)
          = (\<not> update_delay \<le> clock w - previous_time s)"
    if "0 < update_delay"
    using that by (auto simp: pos_divide_less_eq)
  have nonneg: "0 \<le> (clock w - previous_time s) / update_delay"
    if "0 < update_delay" "previous_time s \<le> clock w"
    using that by simp
  from frame bar below nonneg show ?thesis by blast
qed

theorem progress_fraction_witness:
  "fst (sample_phase default_config sample_str 30 (sample_world\<lparr>clock := 15\<rparr>)
         (initial_state 0 ''data_1'' sample_sensor)) = None
   \<and> ltr559_proximity (sample_world\<lparr>clock := 15\<rparr>) = Inr 0
   \<and> display_raises (sample_world\<lparr>clock := 15\<rparr>) = None
   \<and> (30 :: real) \<noteq> 0
   \<and> last (last (lcd (tick default_config sample_str sample_display 30
                        (sample_world\<lparr>clock := 15\<rparr>)
                        (initial_state 0 ''data_1'' sample_sensor))))
       = Rectangle (0, 72, 80, 80) Lime
   \<and> (0 :: real) < 30
   \<and> previous_time (initial_state 0 ''data_1'' sample_sensor)
       \<le> clock (sample_world\<lparr>clock := 15\<rparr>)
   \<and> (clock (sample_world\<lparr>clock := 15\<rparr>)
        - previous_time (initial_state 0 ''data_1'' sample_sensor)) / 30 < 1
   \<and> 0 \<le> (clock (sample_world\<lparr>clock := 15\<rparr>)
            - previous_time (initial_state 0 ''data_1'' sample_sensor)) / 30"
proof -
  let ?w = "sample_world\<lparr>clock := 15\<rparr>"
  let ?s = "initial_state 0 ''data_1'' sample_sensor"
  let ?s' = "tick default_config sample_str sample_display 30 ?w ?s"
  note t = progress_fraction [of default_config sample_str 30 ?w ?s 0 sample_display]
  have early: "\<not> (30 :: real) \<le> clock ?w - previous_time ?s"
    by (simp add: initial_state_def)
  have h: "fst (sample_phase default_config sample_str 30 ?w ?s) = None
           \<and> ltr559_proximity ?w = Inr 0 \<and> display_raises ?w = None \<and> (30 :: real) \<noteq> 0"
    using sample_phase_not_due [OF early] by (simp add: sample_world_def)
  have "lcd ?s'
        = lcd ?s
          @ [display_status_bg sample_display (mainloop_errors ?s)
             @ display_main_scene default_config sample_str (current_scene_id ?s')
                 (take (length (measurement_time ?s') - 7) (measurement_time ?s')) (data ?s')
             @ display_progress_bar sample_display ((clock ?w - previous_time ?s) / 30)]"
    using t h by blast
  moreover have "display_progress_bar sample_display ((clock ?w - previous_time ?s) / 30)
          = [Rectangle (0, height sample_display - 8,
               int_trunc (of_int (width sample_display)
                            * ((clock ?w - previous_time ?s) / 30)),
               height sample_display) Lime]"
    using t by blast
  ultimately have bar: "last (last (lcd ?s')) = Rectangle (0, 72, 80, 80) Lime"
    by (simp add: sample_display_def initial_state_def int_trunc_def)
  have pos: "(0 :: real) < 30" and fwd: "previous_time ?s \<le> clock ?w"
    by (simp_all add: initial_state_def)
  have "((clock ?w - previous_time ?s) / 30 < 1) = (\<not> 30 \<le> clock ?w - previous_time ?s)"
    using t pos by blast
  with early have lt: "(clock ?w - previous_time ?s) / 30 < 1"
    by blast
  have ge: "0 \<le> (clock ?w - previous_time ?s) / 30"
    using t pos fwd by blast
  show ?thesis
    using h bar pos fwd lt ge by blast
qed


section \<open>Sinks in a pass\<close>

lemma sample_phase_sinks:
  assumes "update_delay \<le> clock w - previous_time s"
    and "get_sensor_data cfg w (pms s) = (Inr (d, t), p)"
    and "VERBOSE cfg" and "SAVE_DATA_LOCALLY cfg"
  shows "sample_phase cfg str_py update_delay w s
     = (case print_raises w of
          Some e \<Rightarrow>
            (Some e, s\<lparr>previous_time := clock w, pms := p, data := d, measurement_time := t\<rparr>)
        | None \<Rightarrow>
           (case execute_raises w of
              Some e \<Rightarrow>
                (Some e, s\<lparr>previous_time := clock w, pms := p, data := d,
                           measurement_time := t,
                           console := console s @ [verbose str_py d t]\<rparr>)
            | None \<Rightarrow>
                (None, s\<lparr>previous_time := clock w, pms := p, data := d,
                         measurement_time := t,
                         console := console s @ [verbose str_py d t],
                         db_rows := db_rows s @ [send_to_local_db cfg str_py (table_name s) d t],
                         logged := logged s
                            @ [Info ''Success: Data saved to local storage.'']\<rparr>)))"
  using assms by (simp add: sample_phase_def Let_def split: option.splits)

lemma get_sensor_data_print:
  "get_sensor_data cfg (w\<lparr>print_raises := x\<rparr>) p = get_sensor_data cfg w p"
  by (simp add: get_sensor_data_def get_cpu_temperature_def Let_def
      cong: sum.case_cong prod.case_cong)

text \<open>
  C1, as stated, has every sink attempted whatever happens to the others. In a pass
  whose \<open>print\<close> raises while the database would accept the row, the row is not
  written: the exception leaves the \<open>try\<close> block before \<open>send_to_local_db\<close> is called.
  The same pass with a working console writes the row.
\<close>

theorem sink_not_isolated_counterexample:
  "db_rows (tick default_config sample_str sample_display 30
              (sample_world\<lparr>print_raises := Some (OtherError ''Broken pipe'')\<rparr>)
              (initial_state 0 ''data_1'' sample_sensor)) = []
   \<and> logged (tick default_config sample_str sample_display 30
              (sample_world\<lparr>print_raises := Some (OtherError ''Broken pipe'')\<rparr>)
              (initial_state 0 ''data_1'' sample_sensor))
       = [Critical (OtherError ''Broken pipe'')]
   \<and> execute_raises (sample_world\<lparr>print_raises := Some (OtherError ''Broken pipe'')\<rparr>)
       = None
   \<and> db_rows (tick default_config sample_str sample_display 30 sample_world
              (initial_state 0 ''data_1'' sample_sensor))
       = [send_to_local_db default_config sample_str ''data_1'' sample_reading
            ''2023-03-08 12:00:00.000000'']"
proof -
  let ?w = "sample_world\<lparr>print_raises := Some (OtherError ''Broken pipe'')\<rparr>"
  let ?s = "initial_state 0 ''data_1'' sample_sensor"
  have due: "(30 :: real) \<le> clock ?w - previous_time ?s"
    "(30 :: real) \<le> clock sample_world - previous_time ?s"
    by (simp_all add: sample_world_def initial_state_def)
  have cfg: "VERBOSE default_config" "SAVE_DATA_LOCALLY default_config"
    by (simp_all add: default_config_def)
  have acq: "get_sensor_data default_config sample_world (pms ?s)
               = (Inr (sample_reading, ''2023-03-08 12:00:00.000000''),
                  \<lparr>pending = [], reads = 1, resets = 0\<rparr>)"
    using get_sensor_data_sample by (simp add: initial_state_def)
  have "get_sensor_data default_config ?w (pms ?s)
          = get_sensor_data default_config sample_world (pms ?s)"
    by (rule get_sensor_data_print)
  with acq have acq': "get_sensor_data default_config ?w (pms ?s)
               = (Inr (sample_reading, ''2023-03-08 12:00:00.000000''),
                  \<lparr>pending = [], reads = 1, resets = 0\<rparr>)"
    by simp
  have "fst (sample_phase default_config sample_str 30 ?w ?s)
          = Some (OtherError ''Broken pipe'')"
    and "db_rows (snd (sample_phase default_config sample_str 30 ?w ?s)) = []"
    and "logged (snd (sample_phase default_config sample_str 30 ?w ?s)) = []"
    unfolding sample_phase_sinks [OF due(1) acq' cfg]
    by (simp_all add: initial_state_def)
  then have failed: "db_rows (tick default_config sample_str sample_display 30 ?w ?s) = []
      \<and> logged (tick default_config sample_str sample_display 30 ?w ?s)
          = [Critical (OtherError ''Broken pipe'')]"
    by (cases "sample_phase default_config sample_str 30 ?w ?s")
       (simp add: tick_sample_raises)
  have "db_rows (snd (sample_phase default_config sample_str 30 sample_world ?s))
          = [send_to_local_db default_config sample_str ''data_1'' sample_reading
               ''2023-03-08 12:00:00.000000'']"
    unfolding sample_phase_sinks [OF due(2) acq cfg]
    by (simp add: initial_state_def sample_world_def)
  then have fine: "db_rows (tick default_config sample_str sample_display 30 sample_world ?s)
          = [send_to_local_db default_config sample_str ''data_1'' sample_reading
               ''2023-03-08 12:00:00.000000'']"
    by (simp add: tick_sample_fields)
  show ?thesis using failed fine by (simp add: sample_world_def)
qed

text \<open>
  C1, amended: a sampling pass with both sinks enabled calls the console sink and then
  the local store, inside the one \<open>try\<close> block of the pass (the main loop does not
  call the Luftdaten push). An exception raised by a sink ends the pass: it is logged,
  the error flag is set, and nothing that comes later in the pass runs, neither a later
  sink nor the scene change nor the display. What a sink did before the exception
  stays: when the store raises, the line is already printed; when the console raises,
  no row is written. When neither raises, the line is printed and the row written.
\<close>

theorem sink_failure_ends_pass:
  assumes "update_delay \<le> clock w - previous_time s"
    and "get_sensor_data cfg w (pms s) = (Inr (d, t), p)"
    and "VERBOSE cfg" and "SAVE_DATA_LOCALLY cfg"
  shows "(print_raises w = Some e \<longrightarrow>
            console (tick cfg str_py disp update_delay w s) = console s
            \<and> db_rows (tick cfg str_py disp update_delay w s) = db_rows s
            \<and> lcd (tick cfg str_py disp update_delay w s) = lcd s
            \<and> current_scene_id (tick cfg str_py disp update_delay w s) = current_scene_id s
            \<and> mainloop_errors (tick cfg str_py disp update_delay w s)
            \<and> logged (tick cfg str_py disp update_delay w s) = logged s @ [Critical e])
       \<and> (print_raises w = None \<and> execute_raises w = Some e \<longrightarrow>
            console (tick cfg str_py disp update_delay w s)
              = console s @ [verbose str_py d t]
            \<and> db_rows (tick cfg str_py disp update_delay w s) = db_rows s
            \<and> lcd (tick cfg str_py disp update_delay w s) = lcd s
            \<and> current_scene_id (tick cfg str_py disp update_delay w s) = current_scene_id s
            \<and> mainloop_errors (tick cfg str_py disp update_delay w s)
            \<and> logged (tick cfg str_py disp update_delay w s) = logged s @ [Critical e])
       \<and> (print_raises w = None \<and> execute_raises w = None \<longrightarrow>
            console (tick cfg str_py disp update_delay w s)
              = console s @ [verbose str_py d t]
            \<and> db_rows (tick cfg str_py disp update_delay w s)
              = db_rows s @ [send_to_local_db cfg str_py (table_name s) d t])"
proof -
  note sp = sample_phase_sinks [OF assms, of str_py]
  have first: "console (tick cfg str_py disp update_delay w s) = console s
            \<and> db_rows (tick cfg str_py disp update_delay w s) = db_rows s
            \<and> lcd (tick cfg str_py disp update_delay w s) = lcd s
            \<and> current_scene_id (tick cfg str_py disp update_delay w s) = current_scene_id s
            \<and> mainloop_errors (tick cfg str_py disp update_delay w s)
            \<and> logged (tick cfg str_py disp update_delay w s) = logged s @ [Critical e]"
    if "print_raises w = Some e"
    using that sp by (simp add: tick_sample_raises)
  have second: "console (tick cfg str_py disp update_delay w s)
              = console s @ [verbose str_py d t]
            \<and> db_rows (tick cfg str_py disp update_delay w s) = db_rows s
            \<and> lcd (tick cfg str_py disp update_delay w s) = lcd s
            \<and> current_scene_id (tick cfg str_py disp update_delay w s) = current_scene_id s
            \<and> mainloop_errors (tick cfg str_py disp update_delay w s)
            \<and> logged (tick cfg str_py disp update_delay w s) = logged s @ [Critical e]"
    if "print_raises w = None" "execute_raises w = Some e"
    using that sp by (simp add: tick_sample_raises)
  have both: "console (tick cfg str_py disp update_delay w s)
              = console s @ [verbose str_py d t]
            \<and> db_rows (tick cfg str_py disp update_delay w s)
              = db_rows s @ [send_to_local_db cfg str_py (table_name s) d t]"
    if "print_raises w = None" "execute_raises w = None"
    using that sp by (simp add: tick_sample_fields)
  from first second both show ?thesis by blast
qed


lemma get_sensor_data_execute:
  "get_sensor_data cfg (w\<lparr>execute_raises := x\<rparr>) p = get_sensor_data cfg w p"
  by (simp add: get_sensor_data_def get_cpu_temperature_def Let_def
      cong: sum.case_cong prod.case_cong)

theorem sink_failure_ends_pass_witness:
  "(30 :: real) \<le> clock (sample_world\<lparr>print_raises := Some (OtherError ''Broken pipe'')\<rparr>)
                    - previous_time (initial_state 0 ''data_1'' sample_sensor)
   \<and> get_sensor_data default_config
         (sample_world\<lparr>print_raises := Some (OtherError ''Broken pipe'')\<rparr>)
         (pms (initial_state 0 ''data_1'' sample_sensor))
       = (Inr (sample_reading, ''2023-03-08 12:00:00.000000''),
          \<lparr>pending = [], reads = 1, resets = 0\<rparr>)
   \<and> VERBOSE default_config \<and> SAVE_DATA_LOCALLY default_config
   \<and> print_raises (sample_world\<lparr>print_raises := Some (OtherError ''Broken pipe'')\<rparr>)
       = Some (OtherError ''Broken pipe'')
   \<and> db_rows (tick default_config sample_str sample_display 30
         (sample_world\<lparr>print_raises := Some (OtherError ''Broken pipe'')\<rparr>)
         (initial_state 0 ''data_1'' sample_sensor)) = []
   \<and> mainloop_errors (tick default_config sample_str sample_display 30
         (sample_world\<lparr>print_raises := Some (OtherError ''Broken pipe'')\<rparr>)
         (initial_state 0 ''data_1'' sample_sensor))
   \<and> print_raises (sample_world\<lparr>execute_raises := Some (OtherError ''database is locked'')\<rparr>)
       = None
   \<and> execute_raises (sample_world\<lparr>execute_raises := Some (OtherError ''database is locked'')\<rparr>)
       = Some (OtherError ''database is locked'')
   \<and> console (tick default_config sample_str sample_display 30
         (sample_world\<lparr>execute_raises := Some (OtherError ''database is locked'')\<rparr>)
         (initial_state 0 ''data_1'' sample_sensor))
       = [verbose sample_str sample_reading ''2023-03-08 12:00:00.000000'']
   \<and> db_rows (tick default_config sample_str sample_display 30
         (sample_world\<lparr>execute_raises := Some (OtherError ''database is locked'')\<rparr>)
         (initial_state 0 ''data_1'' sample_sensor)) = []
   \<and> logged (tick default_config sample_str sample_display 30
         (sample_world\<lparr>execute_raises := Some (OtherError ''database is locked'')\<rparr>)
         (initial_state 0 ''data_1'' sample_sensor))
       = [Critical (OtherError ''database is locked'')]"
proof -
  let ?e1 = "OtherError ''Broken pipe''"
  let ?e2 = "OtherError ''database is locked''"
  let ?w1 = "sample_world\<lparr>print_raises := Some ?e1\<rparr>"
  let ?w2 = "sample_world\<lparr>execute_raises := Some ?e2\<rparr>"
  let ?s = "initial_state 0 ''data_1'' sample_sensor"
  let ?tick = "tick default_config sample_str sample_display 30"
  have due: "(30 :: real) \<le> clock ?w1 - previous_time ?s"
    "(30 :: real) \<le> clock ?w2 - previous_time ?s"
    by (simp_all add: sample_world_def initial_state_def)
  have cfg: "VERBOSE default_config" "SAVE_DATA_LOCALLY default_config"
    by (simp_all add: default_config_def)
  have acq: "get_sensor_data default_config sample_world (pms ?s)
               = (Inr (sample_reading, ''2023-03-08 12:00:00.000000''),
                  \<lparr>pending = [], reads = 1, resets = 0\<rparr>)"
    using get_sensor_data_sample by (simp add: initial_state_def)
  have acq1: "get_sensor_data default_config ?w1 (pms ?s)
               = (Inr (sample_reading, ''2023-03-08 12:00:00.000000''),
                  \<lparr>pending = [], reads = 1, resets = 0\<rparr>)"
    using acq by (simp only: get_sensor_data_print)
  have acq2: "get_sensor_data default_config ?w2 (pms ?s)
               = (Inr (sample_reading, ''2023-03-08 12:00:00.000000''),
                  \<lparr>pending = [], reads = 1, resets = 0\<rparr>)"
    using acq by (simp only: get_sensor_data_execute)
  have p1: "print_raises ?w1 = Some ?e1"
    and p2: "print_raises ?w2 = None \<and> execute_raises ?w2 = Some ?e2"
    by (simp_all add: sample_world_def)
  note t1 = sink_failure_ends_pass
    [OF due(1) acq1 cfg, of ?e1 sample_str sample_display]
  note t2 = sink_failure_ends_pass
    [OF due(2) acq2 cfg, of ?e2 sample_str sample_display]
  have "db_rows (?tick ?w1 ?s) = db_rows ?s \<and> mainloop_errors (?tick ?w1 ?s)"
    using t1 p1 by blast
  then have first: "db_rows (?tick ?w1 ?s) = [] \<and> mainloop_errors (?tick ?w1 ?s)"
    by (simp add: initial_state_def)
  have "console (?tick ?w2 ?s)
          = console ?s @ [verbose sample_str sample_reading ''2023-03-08 12:00:00.000000'']
        \<and> db_rows (?tick ?w2 ?s) = db_rows ?s
        \<and> logged (?tick ?w2 ?s) = logged ?s @ [Critical ?e2]"
    using t2 p2 by blast
  then have second: "console (?tick ?w2 ?s)
          = [verbose sample_str sample_reading ''2023-03-08 12:00:00.000000'']
        \<and> db_rows (?tick ?w2 ?s) = []
        \<and> logged (?tick ?w2 ?s) = [Critical ?e2]"
    by (simp add: initial_state_def)
  show ?thesis
    using due(1) acq1 cfg p1 first p2 second by blast
qed

end
